theory Spec2Isabelle
  imports Complex_Main "HOL-Library.Word"
begin

section \<open>Data model of \<open>output_elasticity.cpp\<close>\<close>

text \<open>
  The file \<open>SU2_CFD/src/output/output_elasticity.cpp\<close> implements the class
  \<open>CElasticityOutput\<close>, derived from \<open>COutput\<close>. The base class, the configuration
  class \<open>CConfig\<close>, the geometry and the solver classes are declared in headers that are
  not part of the file; they are represented by records holding exactly the members and
  accessor results that the file reads.

  The floating-point type \<open>su2double\<close> is kept abstract as a type variable \<open>'d\<close>; the
  library function \<open>log10\<close> and the implicit conversion from \<open>unsigned long\<close> are passed
  to the loader as parameters, so every statement holds for any floating-point semantics.
\<close>

text \<open>
  Modelled from the spec: the values returned by \<open>GetGeometricConditions()\<close>. The
  enumerators \<open>SMALL_DEFORMATIONS\<close> and \<open>LARGE_DEFORMATIONS\<close> are declared outside the
  file; the accessor returns an integer, so a value different from both enumerators is
  representable and is written \<open>UNRECOGNISED_DEFORMATIONS\<close>.
\<close>

datatype GEOMETRIC_CONDITIONS =
  SMALL_DEFORMATIONS | LARGE_DEFORMATIONS | UNRECOGNISED_DEFORMATIONS

text \<open>
  Modelled from the spec: the values returned by \<open>GetDynamic_Analysis()\<close>
  (\<open>timeMode: STATIC | DYNAMIC\<close>), declared outside the file.
\<close>

datatype DYNAMIC_ANALYSIS = STATIC | DYNAMIC

text \<open>
  The accessors of \<open>CConfig\<close> that the file calls. The iteration counters and the
  write frequency are \<open>unsigned long\<close> (64 bits), \<open>GetiZone\<close> is \<open>unsigned short\<close>.
\<close>

record CConfig =
  GetGeometricConditions :: GEOMETRIC_CONDITIONS
  GetTime_Domain :: bool
  GetDynamic_Analysis :: DYNAMIC_ANALYSIS
  GetiZone :: "16 word"
  GetVolume_FileName :: string
  GetSurfCoeff_FileName :: string
  GetRestart_FileName :: string
  GetIntIter :: "64 word"
  GetExtIter :: "64 word"
  GetWrt_Con_Freq :: "64 word"
  GetMultizone_Problem :: bool
  GetWrt_ZoneConv :: bool

text \<open>Mesh points, solution variables, the geometry and the structural solver.\<close>

record 'd CPoint =
  GetCoord :: "nat \<Rightarrow> 'd"

record 'd CVariable =
  GetSolution :: "nat \<Rightarrow> 'd"
  GetSolution_Vel :: "nat \<Rightarrow> 'd"
  GetSolution_Accel :: "nat \<Rightarrow> 'd"
  GetStress_FEM :: "nat \<Rightarrow> 'd"
  GetVonMises_Stress :: 'd

record 'd CGeometry =
  GetnDim :: "16 word"
  geometry_node :: "'d CPoint list"

record 'd CSolver =
  solver_node :: "'d CVariable list"
  GetRes_RMS :: "nat \<Rightarrow> 'd"
  GetRes_FEM :: "nat \<Rightarrow> 'd"
  GetRes_BGS :: "nat \<Rightarrow> 'd"
  GetTotal_CFEA :: 'd
  GetLoad_Increment :: 'd
  GetForceCoeff :: 'd

text \<open>
  The members of the base class \<open>COutput\<close> that the file reads or assigns, in the state
  left by the base-class constructor \<open>COutput(config)\<close>.
\<close>

record COutput =
  nRequestedHistoryFields :: "16 word"
  RequestedHistoryFields :: "string list"
  nRequestedScreenFields :: "16 word"
  RequestedScreenFields :: "string list"
  nRequestedVolumeFields :: "16 word"
  RequestedVolumeFields :: "string list"
  multizone :: bool
  MultiZoneHeaderString :: string
  VolumeFilename :: string
  SurfaceFilename :: string
  RestartFilename :: string
  Conv_Field :: string
  curr_TimeIter :: "64 word"
  curr_InnerIter :: "64 word"
  curr_OuterIter :: "64 word"

text \<open>
  The members that \<open>CElasticityOutput\<close> adds. \<open>nVar_FEM\<close> is assigned only under
  \<open>linear_analysis\<close> or \<open>nonlinear_analysis\<close>; \<open>None\<close> stands for "not assigned".
\<close>

record CElasticityOutput = COutput +
  linear_analysis :: bool
  nonlinear_analysis :: bool
  dynamic :: bool
  nDim :: "16 word"
  nVar_FEM :: "16 word option"

text \<open>Format classes and field kinds used when a history field is registered.\<close>

datatype SCREEN_FORMAT = FORMAT_INTEGER | FORMAT_FIXED | FORMAT_SCIENTIFIC

datatype FIELD_TYPE = TYPE_DEFAULT | TYPE_RESIDUAL

record HistoryOutputField =
  HistoryName :: string
  HistoryFieldName :: string
  HistoryFormat :: SCREEN_FORMAT
  HistoryGroup :: string
  HistoryType :: FIELD_TYPE

record VolumeOutputField =
  VolumeName :: string
  VolumeFieldName :: string
  VolumeGroup :: string

section \<open>Calls into the base class\<close>

text \<open>
  \<open>AddHistoryOutput\<close>, \<open>AddVolumeOutput\<close>, \<open>SetHistoryOutputValue\<close> and
  \<open>SetVolumeOutputValue\<close> are methods of \<open>COutput\<close>. Each function of the file is
  modelled by the sequence of such calls it makes, in program order: a catalog is the list
  of registrations, a load is the list of writes. A call is represented by its arguments.
\<close>

definition AddHistoryOutput ::
  "string \<Rightarrow> string \<Rightarrow> SCREEN_FORMAT \<Rightarrow> string \<Rightarrow> FIELD_TYPE \<Rightarrow> HistoryOutputField" where
  "AddHistoryOutput name field_name format groupname field_type =
     \<lparr>HistoryName = name, HistoryFieldName = field_name, HistoryFormat = format,
      HistoryGroup = groupname, HistoryType = field_type\<rparr>"

definition AddVolumeOutput :: "string \<Rightarrow> string \<Rightarrow> string \<Rightarrow> VolumeOutputField" where
  "AddVolumeOutput name field_name groupname =
     \<lparr>VolumeName = name, VolumeFieldName = field_name, VolumeGroup = groupname\<rparr>"

definition SetHistoryOutputValue :: "string \<Rightarrow> 'd \<Rightarrow> string \<times> 'd" where
  "SetHistoryOutputValue name val = (name, val)"

definition SetVolumeOutputValue :: "string \<Rightarrow> 64 word \<Rightarrow> 'd \<Rightarrow> string \<times> 64 word \<times> 'd" where
  "SetVolumeOutputValue name iPoint val = (name, iPoint, val)"

section \<open>The constructor\<close>

text \<open>Decimal rendering of an unsigned integer, as \<open>operator<<\<close> of a string stream.\<close>

definition digit_char :: "nat \<Rightarrow> char" where
  "digit_char d = char_of (48 + d)"

function decimal :: "nat \<Rightarrow> string" where
  "decimal n = (if n < 10 then [digit_char n] else decimal (n div 10) @ [digit_char (n mod 10)])"
  by pat_completeness auto
termination
  by (relation "measure id") auto

declare decimal.simps [simp del]

text \<open>
  \<open>CElasticityOutput::CElasticityOutput(config, geometry, val_iZone)\<close>. The argument
  \<open>base\<close> is the object as the base-class constructor left it. The body has no
  \<open>throw\<close>, no call that reports an error and no early return: it is a total function.
\<close>

definition CElasticityOutput_ctor ::
  "CConfig \<Rightarrow> 'd CGeometry \<Rightarrow> 16 word \<Rightarrow> COutput \<Rightarrow> CElasticityOutput" where
  "CElasticityOutput_ctor config geometry val_iZone base =
    (let lin = (GetGeometricConditions config = SMALL_DEFORMATIONS);
         nonlin = (GetGeometricConditions config = LARGE_DEFORMATIONS);
         dyn = (GetTime_Domain config \<or> GetDynamic_Analysis config = DYNAMIC);
         nd = GetnDim geometry;
         nvar = None;
         nvar = (if lin then Some nd else nvar);
         nvar = (if nonlin then Some 3 else nvar);
         this = COutput.extend base (CElasticityOutput.fields lin nonlin dyn nd nvar);
         this = (if nRequestedHistoryFields this = 0
                 then (let fs = RequestedHistoryFields this @ [''ITER'', ''RMS_RES'']
                       in this\<lparr>RequestedHistoryFields := fs,
                               nRequestedHistoryFields := of_nat (length fs)\<rparr>)
                 else this);
         this = (if nRequestedScreenFields this = 0
                 then (let fs = RequestedScreenFields this
                         @ (if dynamic this then [''TIME_ITER''] else [])
                         @ (if multizone this then [''OUTER_ITER''] else [])
                         @ [''INNER_ITER'']
                         @ (if linear_analysis this
                            then [''RMS_DISP_X'', ''RMS_DISP_Y'', ''RMS_DISP_Z''] else [])
                         @ (if nonlinear_analysis this
                            then [''RMS_UTOL'', ''RMS_RTOL'', ''RMS_ETOL''] else [])
                         @ [''VMS'']
                       in this\<lparr>RequestedScreenFields := fs,
                               nRequestedScreenFields := of_nat (length fs)\<rparr>)
                 else this);
         this = (if nRequestedVolumeFields this = 0
                 then (let fs = RequestedVolumeFields this
                         @ [''COORDINATES'', ''SOLUTION'', ''STRESS'']
                       in this\<lparr>RequestedVolumeFields := fs,
                               nRequestedVolumeFields := of_nat (length fs)\<rparr>)
                 else this);
         this = this\<lparr>MultiZoneHeaderString :=
                        ''Zone '' @ decimal (unat (GetiZone config)) @ '' (Structure)''\<rparr>;
         this = this\<lparr>VolumeFilename := GetVolume_FileName config\<rparr>;
         this = this\<lparr>SurfaceFilename := GetSurfCoeff_FileName config\<rparr>;
         this = this\<lparr>RestartFilename := GetRestart_FileName config\<rparr>;
         this = (if length (Conv_Field this) = 0
                 then this\<lparr>Conv_Field := ''RMS_DISP_X''\<rparr> else this)
     in this)"

section \<open>The field catalogs\<close>

text \<open>
  \<open>CElasticityOutput::SetHistoryOutputFields\<close>: the registrations, in program order.
  The calls with four arguments take the default field type. The parameter \<open>config\<close> is
  not read by the body.
\<close>

definition SetHistoryOutputFields :: "CElasticityOutput \<Rightarrow> HistoryOutputField list" where
  "SetHistoryOutputFields this =
    [AddHistoryOutput ''TIME_ITER'' ''Time_Iter'' FORMAT_INTEGER ''ITER'' TYPE_DEFAULT,
     AddHistoryOutput ''OUTER_ITER'' ''Outer_Iter'' FORMAT_INTEGER ''ITER'' TYPE_DEFAULT,
     AddHistoryOutput ''INNER_ITER'' ''Inner_Iter'' FORMAT_INTEGER ''ITER'' TYPE_DEFAULT,
     AddHistoryOutput ''PHYS_TIME'' ''Time(min)'' FORMAT_SCIENTIFIC ''PHYS_TIME'' TYPE_DEFAULT,
     AddHistoryOutput ''LINSOL_ITER'' ''Linear_Solver_Iterations'' FORMAT_INTEGER
       ''LINSOL_ITER'' TYPE_DEFAULT,
     AddHistoryOutput ''RMS_UTOL'' ''rms[U]'' FORMAT_FIXED ''RMS_RES'' TYPE_RESIDUAL,
     AddHistoryOutput ''RMS_RTOL'' ''rms[R]'' FORMAT_FIXED ''RMS_RES'' TYPE_RESIDUAL,
     AddHistoryOutput ''RMS_ETOL'' ''rms[E]'' FORMAT_FIXED ''RMS_RES'' TYPE_RESIDUAL,
     AddHistoryOutput ''RMS_DISP_X'' ''rms[DispX]'' FORMAT_FIXED ''RMS_RES'' TYPE_RESIDUAL,
     AddHistoryOutput ''RMS_DISP_Y'' ''rms[DispY]'' FORMAT_FIXED ''RMS_RES'' TYPE_RESIDUAL,
     AddHistoryOutput ''RMS_DISP_Z'' ''rms[DispZ]'' FORMAT_FIXED ''RMS_RES'' TYPE_RESIDUAL,
     AddHistoryOutput ''BGS_DISP_X'' ''bgs[DispX]'' FORMAT_FIXED ''BGS_RES'' TYPE_RESIDUAL,
     AddHistoryOutput ''BGS_DISP_Y'' ''bgs[DispY]'' FORMAT_FIXED ''BGS_RES'' TYPE_RESIDUAL,
     AddHistoryOutput ''BGS_DISP_Z'' ''bgs[DispZ]'' FORMAT_FIXED ''BGS_RES'' TYPE_RESIDUAL,
     AddHistoryOutput ''VMS'' ''VonMises'' FORMAT_SCIENTIFIC ''VMS'' TYPE_DEFAULT,
     AddHistoryOutput ''LOAD_INCREMENT'' ''Load_Increment'' FORMAT_FIXED
       ''LOAD_INCREMENT'' TYPE_DEFAULT,
     AddHistoryOutput ''LOAD_RAMP'' ''Load_Ramp'' FORMAT_FIXED ''LOAD_RAMP'' TYPE_DEFAULT]"

text \<open>\<open>CElasticityOutput::SetVolumeOutputFields\<close>: the registrations, in program order.\<close>

definition SetVolumeOutputFields :: "CElasticityOutput \<Rightarrow> VolumeOutputField list" where
  "SetVolumeOutputFields this =
    [AddVolumeOutput ''COORD-X'' ''x'' ''COORDINATES'',
     AddVolumeOutput ''COORD-Y'' ''y'' ''COORDINATES'']
    @ (if nDim this = 3 then [AddVolumeOutput ''COORD-Z'' ''z'' ''COORDINATES''] else [])
    @ [AddVolumeOutput ''DISPLACEMENT-X'' ''Displacement_x'' ''SOLUTION'',
       AddVolumeOutput ''DISPLACEMENT-Y'' ''Displacement_y'' ''SOLUTION'']
    @ (if nDim this = 3
       then [AddVolumeOutput ''DISPLACEMENT-Z'' ''Displacement_z'' ''SOLUTION''] else [])
    @ [AddVolumeOutput ''VELOCITY-X'' ''Velocity_x'' ''VELOCITY'',
       AddVolumeOutput ''VELOCITY-Y'' ''Velocity_y'' ''VELOCITY'']
    @ (if nDim this = 3 then [AddVolumeOutput ''VELOCITY-Z'' ''Velocity_z'' ''VELOCITY''] else [])
    @ [AddVolumeOutput ''ACCELERATION-X'' ''Acceleration_x'' ''ACCELERATION'',
       AddVolumeOutput ''ACCELERATION-Y'' ''Acceleration_y'' ''ACCELERATION'']
    @ (if nDim this = 3
       then [AddVolumeOutput ''ACCELERATION-Z'' ''Acceleration_z'' ''ACCELERATION''] else [])
    @ [AddVolumeOutput ''STRESS-XX'' ''Sxx'' ''STRESS'',
       AddVolumeOutput ''STRESS-YY'' ''Syy'' ''STRESS'',
       AddVolumeOutput ''STRESS-XY'' ''Sxy'' ''STRESS'']
    @ (if nDim this = 3
       then [AddVolumeOutput ''STRESS-ZZ'' ''Szz'' ''STRESS'',
             AddVolumeOutput ''STRESS-XZ'' ''Sxz'' ''STRESS'',
             AddVolumeOutput ''STRESS-YZ'' ''Syz'' ''STRESS'']
       else [])
    @ [AddVolumeOutput ''VON_MISES_STRESS'' ''Von_Mises_Stress'' ''STRESS'']"

section \<open>The loaders\<close>

text \<open>
  \<open>CElasticityOutput::LoadHistoryData\<close>: the writes, in program order. \<open>fea_solver\<close> is
  \<open>solver[FEA_SOL]\<close>; \<open>config\<close> and \<open>geometry\<close> are not read by the body.
\<close>

definition LoadHistoryData ::
  "('d \<Rightarrow> 'd) \<Rightarrow> (64 word \<Rightarrow> 'd) \<Rightarrow> CElasticityOutput \<Rightarrow> 'd CSolver \<Rightarrow> (string \<times> 'd) list" where
  "LoadHistoryData log10 of_ulong this fea_solver =
    [SetHistoryOutputValue ''TIME_ITER'' (of_ulong (curr_TimeIter this)),
     SetHistoryOutputValue ''INNER_ITER'' (of_ulong (curr_InnerIter this)),
     SetHistoryOutputValue ''OUTER_ITER'' (of_ulong (curr_OuterIter this))]
    @ (if linear_analysis this
       then [SetHistoryOutputValue ''RMS_DISP_X'' (log10 (GetRes_RMS fea_solver 0)),
             SetHistoryOutputValue ''RMS_DISP_Y'' (log10 (GetRes_RMS fea_solver 1))]
            @ (if nDim this = 3
               then [SetHistoryOutputValue ''RMS_DISP_Z'' (log10 (GetRes_RMS fea_solver 2))]
               else [])
       else if nonlinear_analysis this
       then [SetHistoryOutputValue ''RMS_UTOL'' (log10 (GetRes_FEM fea_solver 0)),
             SetHistoryOutputValue ''RMS_RTOL'' (log10 (GetRes_FEM fea_solver 1))]
            @ (if nDim this = 3
               then [SetHistoryOutputValue ''RMS_ETOL'' (log10 (GetRes_FEM fea_solver 2))]
               else [])
       else [])
    @ (if multizone this
       then [SetHistoryOutputValue ''BGS_DISP_X'' (log10 (GetRes_BGS fea_solver 0)),
             SetHistoryOutputValue ''BGS_DISP_Y'' (log10 (GetRes_BGS fea_solver 1))]
            @ (if nDim this = 3
               then [SetHistoryOutputValue ''BGS_DISP_Z'' (log10 (GetRes_BGS fea_solver 2))]
               else [])
       else [])
    @ [SetHistoryOutputValue ''VMS'' (GetTotal_CFEA fea_solver),
       SetHistoryOutputValue ''LOAD_INCREMENT'' (GetLoad_Increment fea_solver),
       SetHistoryOutputValue ''LOAD_RAMP'' (GetForceCoeff fea_solver)]"

text \<open>
  \<open>CElasticityOutput::LoadVolumeData\<close>: the writes for the point \<open>iPoint\<close>, in program
  order. Reading \<open>node[iPoint]\<close> beyond the end of either array is undefined in C++; the
  model returns \<open>None\<close> there. \<open>config\<close> is not read by the body.
\<close>

definition LoadVolumeData ::
  "CElasticityOutput \<Rightarrow> 'd CGeometry \<Rightarrow> 'd CSolver \<Rightarrow> 64 word
     \<Rightarrow> (string \<times> 64 word \<times> 'd) list option" where
  "LoadVolumeData this geometry fea_solver iPoint =
    (if unat iPoint < length (solver_node fea_solver)
        \<and> unat iPoint < length (geometry_node geometry)
     then
       (let Node_Struc = solver_node fea_solver ! unat iPoint;
            Node_Geo = geometry_node geometry ! unat iPoint
        in Some
         ([SetVolumeOutputValue ''COORD-X'' iPoint (GetCoord Node_Geo 0),
           SetVolumeOutputValue ''COORD-Y'' iPoint (GetCoord Node_Geo 1)]
          @ (if nDim this = 3
             then [SetVolumeOutputValue ''COORD-Z'' iPoint (GetCoord Node_Geo 2)] else [])
          @ [SetVolumeOutputValue ''DISPLACEMENT-X'' iPoint (GetSolution Node_Struc 0),
             SetVolumeOutputValue ''DISPLACEMENT-Y'' iPoint (GetSolution Node_Struc 1)]
          @ (if nDim this = 3
             then [SetVolumeOutputValue ''DISPLACEMENT-Z'' iPoint (GetSolution Node_Struc 2)]
             else [])
          @ (if dynamic this
             then [SetVolumeOutputValue ''VELOCITY-X'' iPoint (GetSolution_Vel Node_Struc 0),
                   SetVolumeOutputValue ''VELOCITY-Y'' iPoint (GetSolution_Vel Node_Struc 1)]
                  @ (if nDim this = 3
                     then [SetVolumeOutputValue ''VELOCITY-Z'' iPoint
                             (GetSolution_Vel Node_Struc 2)]
                     else [])
                  @ [SetVolumeOutputValue ''ACCELERATION-X'' iPoint
                       (GetSolution_Accel Node_Struc 0),
                     SetVolumeOutputValue ''ACCELERATION-Y'' iPoint
                       (GetSolution_Accel Node_Struc 1)]
                  @ (if nDim this = 3
                     then [SetVolumeOutputValue ''ACCELERATION-Z'' iPoint
                             (GetSolution_Accel Node_Struc 2)]
                     else [])
             else [])
          @ [SetVolumeOutputValue ''STRESS-XX'' iPoint (GetStress_FEM Node_Struc 0),
             SetVolumeOutputValue ''STRESS-YY'' iPoint (GetStress_FEM Node_Struc 1),
             SetVolumeOutputValue ''STRESS-XY'' iPoint (GetStress_FEM Node_Struc 2)]
          @ (if nDim this = 3
             then [SetVolumeOutputValue ''STRESS-ZZ'' iPoint (GetStress_FEM Node_Struc 3),
                   SetVolumeOutputValue ''STRESS-XZ'' iPoint (GetStress_FEM Node_Struc 4),
                   SetVolumeOutputValue ''STRESS-YZ'' iPoint (GetStress_FEM Node_Struc 5)]
             else [])
          @ [SetVolumeOutputValue ''VON_MISES_STRESS'' iPoint
               (GetVonMises_Stress Node_Struc)]))
     else None)"

section \<open>The write gate\<close>

text \<open>\<open>CElasticityOutput::WriteHistoryFile_Output\<close>.\<close>

definition WriteHistoryFile_Output :: "CElasticityOutput \<Rightarrow> CConfig \<Rightarrow> bool" where
  "WriteHistoryFile_Output this config = True"

text \<open>
  \<open>CElasticityOutput::WriteScreen_Header\<close>. The remainder is taken on \<open>unsigned long\<close>
  values, the product \<open>GetWrt_Con_Freq() * 40\<close> wraps modulo \<open>2 ^ 64\<close>, and a remainder
  by zero is undefined in C++: the model returns \<open>None\<close> there.
\<close>

definition WriteScreen_Header :: "CElasticityOutput \<Rightarrow> CConfig \<Rightarrow> bool option" where
  "WriteScreen_Header this config =
    (let write_header =
           (if nonlinear_analysis this then Some (GetIntIter config = 0)
            else if GetWrt_Con_Freq config * 40 = 0 then None
            else Some (GetExtIter config mod (GetWrt_Con_Freq config * 40) = 0))
     in (case write_header of
           None \<Rightarrow> None
         | Some write_header \<Rightarrow>
             (let write_header =
                    (if GetMultizone_Problem config
                     then (write_header \<and> GetWrt_ZoneConv config) else write_header)
              in Some write_header)))"

text \<open>\<open>CElasticityOutput::WriteScreen_Output\<close>.\<close>

definition WriteScreen_Output :: "CElasticityOutput \<Rightarrow> CConfig \<Rightarrow> bool" where
  "WriteScreen_Output this config =
    (let write_output = True;
         write_output = (if GetMultizone_Problem config
                         then (write_output \<and> GetWrt_ZoneConv config) else write_output)
     in write_output)"

section \<open>Notions used by the statements\<close>

text \<open>
  The history catalog and the volume catalog of a run: the field names registered, in
  order, by the object that the constructor builds from the configuration.
\<close>

definition history_catalog :: "CConfig \<Rightarrow> 'd CGeometry \<Rightarrow> 16 word \<Rightarrow> COutput \<Rightarrow> string list" where
  "history_catalog config geometry val_iZone base =
     map HistoryName
       (SetHistoryOutputFields (CElasticityOutput_ctor config geometry val_iZone base))"

definition volume_catalog :: "CConfig \<Rightarrow> 'd CGeometry \<Rightarrow> 16 word \<Rightarrow> COutput \<Rightarrow> string list" where
  "volume_catalog config geometry val_iZone base =
     map VolumeName
       (SetVolumeOutputFields (CElasticityOutput_ctor config geometry val_iZone base))"

text \<open>The field names written by one call of a loader, in order, with repetitions.\<close>

definition history_written ::
  "('d \<Rightarrow> 'd) \<Rightarrow> (64 word \<Rightarrow> 'd) \<Rightarrow> CElasticityOutput \<Rightarrow> 'd CSolver \<Rightarrow> string list" where
  "history_written log10 of_ulong this fea_solver =
     map fst (LoadHistoryData log10 of_ulong this fea_solver)"

definition volume_written ::
  "CElasticityOutput \<Rightarrow> 'd CGeometry \<Rightarrow> 'd CSolver \<Rightarrow> 64 word \<Rightarrow> string list option" where
  "volume_written this geometry fea_solver iPoint =
     map_option (map fst) (LoadVolumeData this geometry fea_solver iPoint)"

text \<open>The names of the out-of-plane volume fields.\<close>

definition z_volume_fields :: "string list" where
  "z_volume_fields =
     [''COORD-Z'', ''DISPLACEMENT-Z'', ''VELOCITY-Z'', ''ACCELERATION-Z'',
      ''STRESS-ZZ'', ''STRESS-XZ'', ''STRESS-YZ'']"

text \<open>The names of the residual history fields.\<close>

definition residual_history_fields :: "string list" where
  "residual_history_fields =
     [''RMS_DISP_X'', ''RMS_DISP_Y'', ''RMS_DISP_Z'',
      ''RMS_UTOL'', ''RMS_RTOL'', ''RMS_ETOL'',
      ''BGS_DISP_X'', ''BGS_DISP_Y'', ''BGS_DISP_Z'']"

text \<open>
  The upstream residual that corresponds to a residual history field: the component of
  the root-mean-square residual for a displacement axis, of the convergence-tolerance
  residual for \<open>UTOL\<close>, \<open>RTOL\<close>, \<open>ETOL\<close>, and of the coupling residual for \<open>BGS\<close>.
\<close>

definition upstream_residual :: "'d CSolver \<Rightarrow> string \<Rightarrow> 'd" where
  "upstream_residual fea_solver name =
     (if name = ''RMS_DISP_X'' then GetRes_RMS fea_solver 0
      else if name = ''RMS_DISP_Y'' then GetRes_RMS fea_solver 1
      else if name = ''RMS_DISP_Z'' then GetRes_RMS fea_solver 2
      else if name = ''RMS_UTOL'' then GetRes_FEM fea_solver 0
      else if name = ''RMS_RTOL'' then GetRes_FEM fea_solver 1
      else if name = ''RMS_ETOL'' then GetRes_FEM fea_solver 2
      else if name = ''BGS_DISP_X'' then GetRes_BGS fea_solver 0
      else if name = ''BGS_DISP_Y'' then GetRes_BGS fea_solver 1
      else GetRes_BGS fea_solver 2)"

text \<open>
  The header decision in the words of the specification, over the natural numbers (no
  width, no wrap-around): for a nonlinear analysis the inner iteration counter is zero,
  otherwise the external iteration counter is a multiple of forty times the write
  frequency; in a multizone run the decision is AND-ed with the opt-in flag. The formula
  says nothing for a write frequency of zero, where the remainder is not defined.
\<close>

definition shouldEmitHeader :: "bool \<Rightarrow> bool \<Rightarrow> bool \<Rightarrow> nat \<Rightarrow> nat \<Rightarrow> nat \<Rightarrow> bool" where
  "shouldEmitHeader nonlinear is_multizone opt_in innerIter extIter writeFrequency =
     ((if nonlinear then innerIter = 0 else extIter mod (writeFrequency * 40) = 0)
      \<and> (if is_multizone then opt_in else True))"

text \<open>
  The residual history fields that apply to an object, in the words of the specification:
  the displacement residuals under a linear analysis, the convergence-tolerance residuals
  under a nonlinear analysis, the coupling residuals in a multizone run, and in each
  family the third component only in three dimensions. The loader tests
  \<open>nonlinear_analysis\<close> only where \<open>linear_analysis\<close> is false.
\<close>

definition residual_field_active :: "CElasticityOutput \<Rightarrow> string \<Rightarrow> bool" where
  "residual_field_active this name =
     (if name = ''RMS_DISP_X'' \<or> name = ''RMS_DISP_Y'' then linear_analysis this
      else if name = ''RMS_DISP_Z'' then linear_analysis this \<and> nDim this = 3
      else if name = ''RMS_UTOL'' \<or> name = ''RMS_RTOL''
        then nonlinear_analysis this \<and> \<not> linear_analysis this
      else if name = ''RMS_ETOL''
        then nonlinear_analysis this \<and> \<not> linear_analysis this \<and> nDim this = 3
      else if name = ''BGS_DISP_X'' \<or> name = ''BGS_DISP_Y'' then multizone this
      else if name = ''BGS_DISP_Z'' then multizone this \<and> nDim this = 3
      else False)"

text \<open>
  The history fields that apply to an object: the iteration counters and the summary
  fields always, and the residual fields that apply.
\<close>

definition history_field_applies :: "CElasticityOutput \<Rightarrow> string \<Rightarrow> bool" where
  "history_field_applies this name =
     (name \<in> set [''TIME_ITER'', ''INNER_ITER'', ''OUTER_ITER'',
                   ''VMS'', ''LOAD_INCREMENT'', ''LOAD_RAMP'']
      \<or> residual_field_active this name)"

section \<open>Concrete inputs\<close>

text \<open>
  A value domain for \<open>su2double\<close> with the special values of IEEE arithmetic, and
  \<open>log10\<close> on it as the C library specifies it at the special arguments (rounding is
  not represented). It instantiates the abstract value type at concrete inputs.
\<close>

datatype ext_double = Finite real | PlusInf | MinusInf | NaN

definition ext_log10 :: "ext_double \<Rightarrow> ext_double" where
  "ext_log10 x =
     (case x of
        Finite r \<Rightarrow> (if r = 0 then MinusInf else if r < 0 then NaN else Finite (log 10 r))
      | PlusInf \<Rightarrow> PlusInf
      | MinusInf \<Rightarrow> NaN
      | NaN \<Rightarrow> NaN)"

definition ext_of_ulong :: "64 word \<Rightarrow> ext_double" where
  "ext_of_ulong w = Finite (real (unat w))"

definition ext_isfinite :: "ext_double \<Rightarrow> bool" where
  "ext_isfinite x = (case x of Finite r \<Rightarrow> True | PlusInf \<Rightarrow> False | MinusInf \<Rightarrow> False | NaN \<Rightarrow> False)"

text \<open>A base object with nothing requested and no convergence field configured.\<close>

definition example_base :: "bool \<Rightarrow> COutput" where
  "example_base mz =
     \<lparr>nRequestedHistoryFields = 0, RequestedHistoryFields = [],
      nRequestedScreenFields = 0, RequestedScreenFields = [],
      nRequestedVolumeFields = 0, RequestedVolumeFields = [],
      multizone = mz, MultiZoneHeaderString = [],
      VolumeFilename = [], SurfaceFilename = [], RestartFilename = [],
      Conv_Field = [],
      curr_TimeIter = 0, curr_InnerIter = 0, curr_OuterIter = 0\<rparr>"

text \<open>A configuration with the given geometry mode, time mode, multizone flag and opt-in flag.\<close>

definition example_config ::
  "GEOMETRIC_CONDITIONS \<Rightarrow> DYNAMIC_ANALYSIS \<Rightarrow> bool \<Rightarrow> bool \<Rightarrow> CConfig" where
  "example_config geo dyn mz opt_in =
     \<lparr>GetGeometricConditions = geo, GetTime_Domain = False, GetDynamic_Analysis = dyn,
      GetiZone = 0, GetVolume_FileName = ''vol'', GetSurfCoeff_FileName = ''surf'',
      GetRestart_FileName = ''restart'',
      GetIntIter = 5, GetExtIter = 80, GetWrt_Con_Freq = 2,
      GetMultizone_Problem = mz, GetWrt_ZoneConv = opt_in\<rparr>"

text \<open>
  A linear, static, single-zone configuration with the given external iteration counter
  and write frequency.
\<close>

definition example_config_iter :: "64 word \<Rightarrow> 64 word \<Rightarrow> CConfig" where
  "example_config_iter ext freq =
     \<lparr>GetGeometricConditions = SMALL_DEFORMATIONS, GetTime_Domain = False,
      GetDynamic_Analysis = STATIC,
      GetiZone = 0, GetVolume_FileName = ''vol'', GetSurfCoeff_FileName = ''surf'',
      GetRestart_FileName = ''restart'',
      GetIntIter = 5, GetExtIter = ext, GetWrt_Con_Freq = freq,
      GetMultizone_Problem = False, GetWrt_ZoneConv = False\<rparr>"

text \<open>A one-point mesh of the given dimension, and a solver whose residuals are all zero.\<close>

definition example_geometry :: "16 word \<Rightarrow> ext_double CGeometry" where
  "example_geometry nd =
     \<lparr>GetnDim = nd, geometry_node = [\<lparr>GetCoord = (\<lambda>i. Finite 0)\<rparr>]\<rparr>"

definition example_solver :: "ext_double CSolver" where
  "example_solver =
     \<lparr>solver_node =
        [\<lparr>GetSolution = (\<lambda>i. Finite 0), GetSolution_Vel = (\<lambda>i. Finite 0),
          GetSolution_Accel = (\<lambda>i. Finite 0), GetStress_FEM = (\<lambda>i. Finite 0),
          GetVonMises_Stress = Finite 0\<rparr>],
      GetRes_RMS = (\<lambda>i. Finite 0), GetRes_FEM = (\<lambda>i. Finite 0),
      GetRes_BGS = (\<lambda>i. Finite 0),
      GetTotal_CFEA = Finite 0, GetLoad_Increment = Finite 0, GetForceCoeff = Finite 0\<rparr>"

section \<open>The object built by the constructor\<close>

lemma ctor_linear_analysis:
  "linear_analysis (CElasticityOutput_ctor config geometry val_iZone base)
     = (GetGeometricConditions config = SMALL_DEFORMATIONS)"
  by (simp add: CElasticityOutput_ctor_def Let_def COutput.extend_def
      CElasticityOutput.fields_def)

lemma ctor_nonlinear_analysis:
  "nonlinear_analysis (CElasticityOutput_ctor config geometry val_iZone base)
     = (GetGeometricConditions config = LARGE_DEFORMATIONS)"
  by (simp add: CElasticityOutput_ctor_def Let_def COutput.extend_def
      CElasticityOutput.fields_def)

lemma ctor_dynamic:
  "dynamic (CElasticityOutput_ctor config geometry val_iZone base)
     = (GetTime_Domain config \<or> GetDynamic_Analysis config = DYNAMIC)"
  by (simp add: CElasticityOutput_ctor_def Let_def COutput.extend_def
      CElasticityOutput.fields_def)

lemma ctor_nDim:
  "nDim (CElasticityOutput_ctor config geometry val_iZone base) = GetnDim geometry"
  by (simp add: CElasticityOutput_ctor_def Let_def COutput.extend_def
      CElasticityOutput.fields_def)

lemma ctor_multizone:
  "multizone (CElasticityOutput_ctor config geometry val_iZone base) = multizone base"
  by (simp add: CElasticityOutput_ctor_def Let_def COutput.extend_def
      CElasticityOutput.fields_def)

lemma ctor_nVar_FEM:
  "nVar_FEM (CElasticityOutput_ctor config geometry val_iZone base) =
     (case GetGeometricConditions config of
        SMALL_DEFORMATIONS \<Rightarrow> Some (GetnDim geometry)
      | LARGE_DEFORMATIONS \<Rightarrow> Some 3
      | UNRECOGNISED_DEFORMATIONS \<Rightarrow> None)"
  by (cases "GetGeometricConditions config")
     (simp_all add: CElasticityOutput_ctor_def Let_def COutput.extend_def
        CElasticityOutput.fields_def)

lemma ctor_Conv_Field_default:
  "Conv_Field base = [] \<Longrightarrow>
     Conv_Field (CElasticityOutput_ctor config geometry val_iZone base) = ''RMS_DISP_X''"
  by (simp add: CElasticityOutput_ctor_def Let_def COutput.extend_def
      CElasticityOutput.fields_def)

lemma ctor_Conv_Field_kept:
  "Conv_Field base \<noteq> [] \<Longrightarrow>
     Conv_Field (CElasticityOutput_ctor config geometry val_iZone base) = Conv_Field base"
  by (simp add: CElasticityOutput_ctor_def Let_def COutput.extend_def
      CElasticityOutput.fields_def)

lemmas ctor_flags =
  ctor_linear_analysis ctor_nonlinear_analysis ctor_dynamic ctor_nDim ctor_multizone

section \<open>The names registered and written\<close>

lemma SetHistoryOutputFields_names:
  "map HistoryName (SetHistoryOutputFields this) =
     [''TIME_ITER'', ''OUTER_ITER'', ''INNER_ITER'', ''PHYS_TIME'', ''LINSOL_ITER'',
      ''RMS_UTOL'', ''RMS_RTOL'', ''RMS_ETOL'',
      ''RMS_DISP_X'', ''RMS_DISP_Y'', ''RMS_DISP_Z'',
      ''BGS_DISP_X'', ''BGS_DISP_Y'', ''BGS_DISP_Z'',
      ''VMS'', ''LOAD_INCREMENT'', ''LOAD_RAMP'']"
  by (simp add: SetHistoryOutputFields_def AddHistoryOutput_def)

lemma SetVolumeOutputFields_names_3D:
  "nDim this = 3 \<Longrightarrow>
   map VolumeName (SetVolumeOutputFields this) =
     [''COORD-X'', ''COORD-Y'', ''COORD-Z'',
      ''DISPLACEMENT-X'', ''DISPLACEMENT-Y'', ''DISPLACEMENT-Z'',
      ''VELOCITY-X'', ''VELOCITY-Y'', ''VELOCITY-Z'',
      ''ACCELERATION-X'', ''ACCELERATION-Y'', ''ACCELERATION-Z'',
      ''STRESS-XX'', ''STRESS-YY'', ''STRESS-XY'',
      ''STRESS-ZZ'', ''STRESS-XZ'', ''STRESS-YZ'', ''VON_MISES_STRESS'']"
  by (simp add: SetVolumeOutputFields_def AddVolumeOutput_def)

lemma SetVolumeOutputFields_names_not_3D:
  "nDim this \<noteq> 3 \<Longrightarrow>
   map VolumeName (SetVolumeOutputFields this) =
     [''COORD-X'', ''COORD-Y'', ''DISPLACEMENT-X'', ''DISPLACEMENT-Y'',
      ''VELOCITY-X'', ''VELOCITY-Y'', ''ACCELERATION-X'', ''ACCELERATION-Y'',
      ''STRESS-XX'', ''STRESS-YY'', ''STRESS-XY'', ''VON_MISES_STRESS'']"
  by (simp add: SetVolumeOutputFields_def AddVolumeOutput_def)

lemma history_written_names:
  "history_written decimal_log of_ulong this fea_solver =
     [''TIME_ITER'', ''INNER_ITER'', ''OUTER_ITER'']
     @ (if linear_analysis this
        then [''RMS_DISP_X'', ''RMS_DISP_Y''] @ (if nDim this = 3 then [''RMS_DISP_Z''] else [])
        else if nonlinear_analysis this
        then [''RMS_UTOL'', ''RMS_RTOL''] @ (if nDim this = 3 then [''RMS_ETOL''] else [])
        else [])
     @ (if multizone this
        then [''BGS_DISP_X'', ''BGS_DISP_Y''] @ (if nDim this = 3 then [''BGS_DISP_Z''] else [])
        else [])
     @ [''VMS'', ''LOAD_INCREMENT'', ''LOAD_RAMP'']"
  by (simp add: history_written_def LoadHistoryData_def SetHistoryOutputValue_def)

lemma volume_written_out_of_range:
  "\<not> (unat iPoint < length (solver_node fea_solver)
       \<and> unat iPoint < length (geometry_node geometry)) \<Longrightarrow>
   volume_written this geometry fea_solver iPoint = None"
  by (auto simp add: volume_written_def LoadVolumeData_def)

lemma volume_written_names:
  "unat iPoint < length (solver_node fea_solver) \<Longrightarrow>
   unat iPoint < length (geometry_node geometry) \<Longrightarrow>
   volume_written this geometry fea_solver iPoint =
     Some ([''COORD-X'', ''COORD-Y''] @ (if nDim this = 3 then [''COORD-Z''] else [])
       @ [''DISPLACEMENT-X'', ''DISPLACEMENT-Y'']
       @ (if nDim this = 3 then [''DISPLACEMENT-Z''] else [])
       @ (if dynamic this
          then [''VELOCITY-X'', ''VELOCITY-Y'']
               @ (if nDim this = 3 then [''VELOCITY-Z''] else [])
               @ [''ACCELERATION-X'', ''ACCELERATION-Y'']
               @ (if nDim this = 3 then [''ACCELERATION-Z''] else [])
          else [])
       @ [''STRESS-XX'', ''STRESS-YY'', ''STRESS-XY'']
       @ (if nDim this = 3 then [''STRESS-ZZ'', ''STRESS-XZ'', ''STRESS-YZ''] else [])
       @ [''VON_MISES_STRESS''])"
  by (simp add: volume_written_def LoadVolumeData_def SetVolumeOutputValue_def Let_def)

lemma count_list_distinct:
  "distinct xs \<Longrightarrow> x \<in> set xs \<Longrightarrow> count_list xs x = 1"
  by (induction xs) auto

lemma LoadHistoryData_residual_writes:
  "name \<in> set residual_history_fields \<Longrightarrow>
   map snd (filter (\<lambda>p. fst p = name) (LoadHistoryData decimal_log of_ulong this fea_solver)) =
     (if residual_field_active this name
      then [decimal_log (upstream_residual fea_solver name)] else [])"
  by (auto simp add: LoadHistoryData_def SetHistoryOutputValue_def
      residual_history_fields_def residual_field_active_def upstream_residual_def)

lemma written_value_member:
  "map snd (filter (\<lambda>p. fst p = name) L) = [val] \<Longrightarrow> (name, val) \<in> set L"
proof -
  assume "map snd (filter (\<lambda>p. fst p = name) L) = [val]"
  then have "val \<in> set (map snd (filter (\<lambda>p. fst p = name) L))"
    by simp
  then show ?thesis by auto
qed

section \<open>The history catalog and the residual fields\<close>

text \<open>
  Claim C1, as the code has it. For every configuration, whatever its geometry mode and
  spatial dimension, the history catalog built by \<open>SetHistoryOutputFields\<close> contains all
  six residual fields \<open>RMS_UTOL\<close>, \<open>RMS_RTOL\<close>, \<open>RMS_ETOL\<close>, \<open>RMS_DISP_X\<close>,
  \<open>RMS_DISP_Y\<close>, \<open>RMS_DISP_Z\<close>. The split by geometry mode is made by
  \<open>LoadHistoryData\<close>: under \<open>LARGE_DEFORMATIONS\<close> it writes \<open>RMS_UTOL\<close>, \<open>RMS_RTOL\<close>
  and, iff the dimension is 3, \<open>RMS_ETOL\<close>, and none of \<open>RMS_DISP_X/Y/Z\<close>; under
  \<open>SMALL_DEFORMATIONS\<close> it writes \<open>RMS_DISP_X\<close>, \<open>RMS_DISP_Y\<close> and, iff the dimension
  is 3, \<open>RMS_DISP_Z\<close>, and none of \<open>RMS_UTOL\<close>, \<open>RMS_RTOL\<close>, \<open>RMS_ETOL\<close>.
\<close>

theorem history_catalog_has_all_residual_fields:
  fixes config :: CConfig and geometry :: "'d CGeometry" and val_iZone :: "16 word"
    and base :: COutput and decimal_log :: "'d \<Rightarrow> 'd" and of_ulong :: "64 word \<Rightarrow> 'd"
    and fea_solver :: "'d CSolver"
  defines "HC \<equiv> history_catalog config geometry val_iZone base"
  defines "W \<equiv> history_written decimal_log of_ulong
                   (CElasticityOutput_ctor config geometry val_iZone base) fea_solver"
  shows "(''RMS_UTOL'' \<in> set HC \<and> ''RMS_RTOL'' \<in> set HC \<and> ''RMS_ETOL'' \<in> set HC
          \<and> ''RMS_DISP_X'' \<in> set HC \<and> ''RMS_DISP_Y'' \<in> set HC \<and> ''RMS_DISP_Z'' \<in> set HC)
       \<and> (GetGeometricConditions config = LARGE_DEFORMATIONS \<longrightarrow>
            ''RMS_UTOL'' \<in> set W \<and> ''RMS_RTOL'' \<in> set W
            \<and> (''RMS_ETOL'' \<in> set W \<longleftrightarrow> GetnDim geometry = 3)
            \<and> ''RMS_DISP_X'' \<notin> set W \<and> ''RMS_DISP_Y'' \<notin> set W \<and> ''RMS_DISP_Z'' \<notin> set W)
       \<and> (GetGeometricConditions config = SMALL_DEFORMATIONS \<longrightarrow>
            ''RMS_DISP_X'' \<in> set W \<and> ''RMS_DISP_Y'' \<in> set W
            \<and> (''RMS_DISP_Z'' \<in> set W \<longleftrightarrow> GetnDim geometry = 3)
            \<and> ''RMS_UTOL'' \<notin> set W \<and> ''RMS_RTOL'' \<notin> set W \<and> ''RMS_ETOL'' \<notin> set W)"
proof -
  have catalog: "HC = map HistoryName (SetHistoryOutputFields
      (CElasticityOutput_ctor config geometry val_iZone base))"
    by (simp add: HC_def history_catalog_def)
  have registered: "''RMS_UTOL'' \<in> set HC \<and> ''RMS_RTOL'' \<in> set HC \<and> ''RMS_ETOL'' \<in> set HC
      \<and> ''RMS_DISP_X'' \<in> set HC \<and> ''RMS_DISP_Y'' \<in> set HC \<and> ''RMS_DISP_Z'' \<in> set HC"
    unfolding catalog SetHistoryOutputFields_names by simp
  have large: "''RMS_UTOL'' \<in> set W \<and> ''RMS_RTOL'' \<in> set W
      \<and> (''RMS_ETOL'' \<in> set W \<longleftrightarrow> GetnDim geometry = 3)
      \<and> ''RMS_DISP_X'' \<notin> set W \<and> ''RMS_DISP_Y'' \<notin> set W \<and> ''RMS_DISP_Z'' \<notin> set W"
    if "GetGeometricConditions config = LARGE_DEFORMATIONS"
    using that by (simp add: W_def history_written_names ctor_flags)
  have small: "''RMS_DISP_X'' \<in> set W \<and> ''RMS_DISP_Y'' \<in> set W
      \<and> (''RMS_DISP_Z'' \<in> set W \<longleftrightarrow> GetnDim geometry = 3)
      \<and> ''RMS_UTOL'' \<notin> set W \<and> ''RMS_RTOL'' \<notin> set W \<and> ''RMS_ETOL'' \<notin> set W"
    if "GetGeometricConditions config = SMALL_DEFORMATIONS"
    using that by (simp add: W_def history_written_names ctor_flags)
  from registered large small show ?thesis by blast
qed

theorem history_catalog_has_all_residual_fields_witness:
  "GetGeometricConditions (example_config LARGE_DEFORMATIONS STATIC False False)
     = LARGE_DEFORMATIONS
   \<and> ''RMS_DISP_X'' \<in> set (history_catalog (example_config LARGE_DEFORMATIONS STATIC False False)
         (example_geometry 3) 0 (example_base False))
   \<and> ''RMS_UTOL'' \<in> set (history_written ext_log10 ext_of_ulong
         (CElasticityOutput_ctor (example_config LARGE_DEFORMATIONS STATIC False False)
            (example_geometry 3) 0 (example_base False)) example_solver)
   \<and> ''RMS_ETOL'' \<in> set (history_written ext_log10 ext_of_ulong
         (CElasticityOutput_ctor (example_config LARGE_DEFORMATIONS STATIC False False)
            (example_geometry 3) 0 (example_base False)) example_solver)
   \<and> ''RMS_DISP_X'' \<notin> set (history_written ext_log10 ext_of_ulong
         (CElasticityOutput_ctor (example_config LARGE_DEFORMATIONS STATIC False False)
            (example_geometry 3) 0 (example_base False)) example_solver)"
proof -
  have mode: "GetGeometricConditions (example_config LARGE_DEFORMATIONS STATIC False False)
      = LARGE_DEFORMATIONS"
    by (simp add: example_config_def)
  have dim: "GetnDim (example_geometry 3) = 3"
    by (simp add: example_geometry_def)
  show ?thesis
    using mode dim
      history_catalog_has_all_residual_fields
        [where config = "example_config LARGE_DEFORMATIONS STATIC False False"
           and geometry = "example_geometry 3" and val_iZone = 0
           and base = "example_base False" and decimal_log = ext_log10
           and of_ulong = ext_of_ulong and fea_solver = example_solver]
    by blast
qed

theorem history_catalog_split_counterexample:
  "GetGeometricConditions (example_config LARGE_DEFORMATIONS STATIC False False)
     = LARGE_DEFORMATIONS
   \<and> GetnDim (example_geometry 2) \<noteq> 3
   \<and> ''RMS_DISP_X'' \<in> set (history_catalog (example_config LARGE_DEFORMATIONS STATIC False False)
         (example_geometry 2) 0 (example_base False))
   \<and> ''RMS_ETOL'' \<in> set (history_catalog (example_config LARGE_DEFORMATIONS STATIC False False)
         (example_geometry 2) 0 (example_base False))"
  by (simp add: example_config_def example_geometry_def history_catalog_def
      SetHistoryOutputFields_names)

section \<open>Out-of-plane fields in a two-dimensional run\<close>

text \<open>
  Claim C2, as the code has it. For every configuration with spatial dimension 2, none of
  the out-of-plane fields (\<open>COORD-Z\<close>, \<open>DISPLACEMENT-Z\<close>, \<open>VELOCITY-Z\<close>,
  \<open>ACCELERATION-Z\<close>, \<open>STRESS-ZZ\<close>, \<open>STRESS-XZ\<close>, \<open>STRESS-YZ\<close>) appears in the volume
  catalog built by \<open>SetVolumeOutputFields\<close>. The history catalog built by
  \<open>SetHistoryOutputFields\<close> does not depend on the dimension: it contains the Z residual
  fields \<open>RMS_DISP_Z\<close> and \<open>BGS_DISP_Z\<close> in a two-dimensional run as well.
\<close>

theorem two_dimensional_catalogs:
  fixes config :: CConfig and geometry :: "'d CGeometry" and val_iZone :: "16 word"
    and base :: COutput
  assumes "GetnDim geometry = 2"
  shows "(\<forall>f \<in> set z_volume_fields. f \<notin> set (volume_catalog config geometry val_iZone base))
       \<and> ''RMS_DISP_Z'' \<in> set (history_catalog config geometry val_iZone base)
       \<and> ''BGS_DISP_Z'' \<in> set (history_catalog config geometry val_iZone base)"
proof -
  have "nDim (CElasticityOutput_ctor config geometry val_iZone base) \<noteq> 3"
    using assms by (simp add: ctor_nDim)
  then have "volume_catalog config geometry val_iZone base =
      [''COORD-X'', ''COORD-Y'', ''DISPLACEMENT-X'', ''DISPLACEMENT-Y'',
       ''VELOCITY-X'', ''VELOCITY-Y'', ''ACCELERATION-X'', ''ACCELERATION-Y'',
       ''STRESS-XX'', ''STRESS-YY'', ''STRESS-XY'', ''VON_MISES_STRESS'']"
    unfolding volume_catalog_def by (rule SetVolumeOutputFields_names_not_3D)
  then have volume: "\<forall>f \<in> set z_volume_fields.
      f \<notin> set (volume_catalog config geometry val_iZone base)"
    by (simp add: z_volume_fields_def)
  have history: "''RMS_DISP_Z'' \<in> set (history_catalog config geometry val_iZone base)
      \<and> ''BGS_DISP_Z'' \<in> set (history_catalog config geometry val_iZone base)"
    by (simp add: history_catalog_def SetHistoryOutputFields_names)
  from volume history show ?thesis by simp
qed

theorem two_dimensional_catalogs_witness:
  "GetnDim (example_geometry 2) = 2
   \<and> ''COORD-Z'' \<notin> set (volume_catalog (example_config SMALL_DEFORMATIONS DYNAMIC False False)
         (example_geometry 2) 0 (example_base False))
   \<and> ''VELOCITY-Z'' \<notin> set (volume_catalog (example_config SMALL_DEFORMATIONS DYNAMIC False False)
         (example_geometry 2) 0 (example_base False))
   \<and> ''STRESS-YZ'' \<notin> set (volume_catalog (example_config SMALL_DEFORMATIONS DYNAMIC False False)
         (example_geometry 2) 0 (example_base False))
   \<and> ''BGS_DISP_Z'' \<in> set (history_catalog (example_config SMALL_DEFORMATIONS DYNAMIC False False)
         (example_geometry 2) 0 (example_base False))"
proof -
  have dim: "GetnDim (example_geometry 2) = 2"
    by (simp add: example_geometry_def)
  show ?thesis
    using dim
      two_dimensional_catalogs
        [OF dim, where config = "example_config SMALL_DEFORMATIONS DYNAMIC False False"
           and val_iZone = 0 and base = "example_base False"]
    by (simp add: z_volume_fields_def)
qed

theorem two_dimensional_history_catalog_counterexample:
  "GetnDim (example_geometry 2) = 2
   \<and> ''RMS_DISP_Z'' \<in> set (history_catalog (example_config SMALL_DEFORMATIONS STATIC False False)
         (example_geometry 2) 0 (example_base False))"
  by (simp add: example_geometry_def history_catalog_def SetHistoryOutputFields_names)

section \<open>Velocity and acceleration in a static run\<close>

text \<open>
  Claim C3, as the code has it. For every configuration, static or dynamic, the volume
  catalog built by \<open>SetVolumeOutputFields\<close> contains \<open>VELOCITY-X\<close>, \<open>VELOCITY-Y\<close>,
  \<open>ACCELERATION-X\<close> and \<open>ACCELERATION-Y\<close>, and it contains \<open>VELOCITY-Z\<close> and
  \<open>ACCELERATION-Z\<close> iff the dimension is 3. The time mode gates the loader only: in a
  static run \<open>LoadVolumeData\<close> returns for every point of the mesh and writes no
  velocity and no acceleration field.
\<close>

theorem volume_catalog_velocity_acceleration:
  fixes config :: CConfig and geometry :: "'d CGeometry" and val_iZone :: "16 word"
    and base :: COutput and fea_solver :: "'d CSolver" and iPoint :: "64 word"
  defines "VC \<equiv> volume_catalog config geometry val_iZone base"
  shows "''VELOCITY-X'' \<in> set VC \<and> ''VELOCITY-Y'' \<in> set VC
       \<and> ''ACCELERATION-X'' \<in> set VC \<and> ''ACCELERATION-Y'' \<in> set VC
       \<and> (''VELOCITY-Z'' \<in> set VC \<longleftrightarrow> GetnDim geometry = 3)
       \<and> (''ACCELERATION-Z'' \<in> set VC \<longleftrightarrow> GetnDim geometry = 3)
       \<and> (\<not> GetTime_Domain config \<and> GetDynamic_Analysis config = STATIC
            \<and> unat iPoint < length (solver_node fea_solver)
            \<and> unat iPoint < length (geometry_node geometry) \<longrightarrow>
            (\<exists>ws. volume_written (CElasticityOutput_ctor config geometry val_iZone base)
                    geometry fea_solver iPoint = Some ws
               \<and> ''VELOCITY-X'' \<notin> set ws \<and> ''VELOCITY-Y'' \<notin> set ws
               \<and> ''VELOCITY-Z'' \<notin> set ws
               \<and> ''ACCELERATION-X'' \<notin> set ws \<and> ''ACCELERATION-Y'' \<notin> set ws
               \<and> ''ACCELERATION-Z'' \<notin> set ws))"
proof -
  let ?obj = "CElasticityOutput_ctor config geometry val_iZone base"
  have catalog: "''VELOCITY-X'' \<in> set VC \<and> ''VELOCITY-Y'' \<in> set VC
      \<and> ''ACCELERATION-X'' \<in> set VC \<and> ''ACCELERATION-Y'' \<in> set VC
      \<and> (''VELOCITY-Z'' \<in> set VC \<longleftrightarrow> GetnDim geometry = 3)
      \<and> (''ACCELERATION-Z'' \<in> set VC \<longleftrightarrow> GetnDim geometry = 3)"
  proof (cases "nDim ?obj = 3")
    case True
    then show ?thesis
      by (simp add: VC_def volume_catalog_def SetVolumeOutputFields_names_3D)
         (simp add: ctor_nDim)
  next
    case False
    then show ?thesis
      by (simp add: VC_def volume_catalog_def SetVolumeOutputFields_names_not_3D)
         (simp add: ctor_nDim)
  qed
  have loader: "\<exists>ws. volume_written ?obj geometry fea_solver iPoint = Some ws
      \<and> ''VELOCITY-X'' \<notin> set ws \<and> ''VELOCITY-Y'' \<notin> set ws \<and> ''VELOCITY-Z'' \<notin> set ws
      \<and> ''ACCELERATION-X'' \<notin> set ws \<and> ''ACCELERATION-Y'' \<notin> set ws
      \<and> ''ACCELERATION-Z'' \<notin> set ws"
    if static: "\<not> GetTime_Domain config" "GetDynamic_Analysis config = STATIC"
      and in_range: "unat iPoint < length (solver_node fea_solver)"
        "unat iPoint < length (geometry_node geometry)"
  proof -
    have "\<not> dynamic ?obj"
      using static by (simp add: ctor_dynamic)
    then show ?thesis
      by (simp add: volume_written_names [OF in_range])
  qed
  from catalog loader show ?thesis by blast
qed

theorem volume_catalog_velocity_acceleration_witness:
  "\<not> GetTime_Domain (example_config SMALL_DEFORMATIONS STATIC False False)
   \<and> GetDynamic_Analysis (example_config SMALL_DEFORMATIONS STATIC False False) = STATIC
   \<and> unat (0 :: 64 word) < length (solver_node example_solver)
   \<and> unat (0 :: 64 word) < length (geometry_node (example_geometry 2))
   \<and> ''VELOCITY-X'' \<in> set (volume_catalog (example_config SMALL_DEFORMATIONS STATIC False False)
         (example_geometry 2) 0 (example_base False))
   \<and> ''ACCELERATION-Y'' \<in> set (volume_catalog (example_config SMALL_DEFORMATIONS STATIC False False)
         (example_geometry 2) 0 (example_base False))
   \<and> ''VELOCITY-Z'' \<notin> set (volume_catalog (example_config SMALL_DEFORMATIONS STATIC False False)
         (example_geometry 2) 0 (example_base False))
   \<and> volume_written (CElasticityOutput_ctor
         (example_config SMALL_DEFORMATIONS STATIC False False)
         (example_geometry 2) 0 (example_base False))
         (example_geometry 2) example_solver 0 \<noteq> None"
proof -
  have s1: "\<not> GetTime_Domain (example_config SMALL_DEFORMATIONS STATIC False False)"
    by (simp add: example_config_def)
  have s2: "GetDynamic_Analysis (example_config SMALL_DEFORMATIONS STATIC False False) = STATIC"
    by (simp add: example_config_def)
  have r1: "unat (0 :: 64 word) < length (solver_node example_solver)"
    by (simp add: example_solver_def)
  have r2: "unat (0 :: 64 word) < length (geometry_node (example_geometry 2))"
    by (simp add: example_geometry_def)
  have dim: "GetnDim (example_geometry 2) \<noteq> 3"
    by (simp add: example_geometry_def)
  show ?thesis
    using s1 s2 r1 r2 dim
      volume_catalog_velocity_acceleration
        [where config = "example_config SMALL_DEFORMATIONS STATIC False False"
           and geometry = "example_geometry 2" and val_iZone = 0
           and base = "example_base False" and fea_solver = example_solver
           and iPoint = 0]
    by auto
qed

theorem static_run_volume_catalog_counterexample:
  "\<not> GetTime_Domain (example_config SMALL_DEFORMATIONS STATIC False False)
   \<and> GetDynamic_Analysis (example_config SMALL_DEFORMATIONS STATIC False False) = STATIC
   \<and> ''VELOCITY-X'' \<in> set (volume_catalog (example_config SMALL_DEFORMATIONS STATIC False False)
         (example_geometry 2) 0 (example_base False))
   \<and> ''ACCELERATION-X'' \<in> set (volume_catalog (example_config SMALL_DEFORMATIONS STATIC False False)
         (example_geometry 2) 0 (example_base False))"
proof -
  have "nDim (CElasticityOutput_ctor (example_config SMALL_DEFORMATIONS STATIC False False)
      (example_geometry 2) 0 (example_base False)) \<noteq> 3"
    by (simp add: ctor_nDim example_geometry_def)
  then show ?thesis
    by (simp add: volume_catalog_def SetVolumeOutputFields_names_not_3D example_config_def)
qed

section \<open>The header decision\<close>

text \<open>
  Claim C4, as the code has it. \<open>WriteScreen_Header\<close> computes in \<open>unsigned long\<close>
  arithmetic: the divisor is \<open>writeFrequency * 40\<close> reduced modulo \<open>2 ^ 64\<close>. For a
  nonlinear analysis the header is written iff the inner iteration counter is 0. For a
  linear analysis with a non-zero divisor it is written iff the external iteration counter
  is a multiple of the divisor; with a zero divisor (a write frequency of 0, or a multiple
  of \<open>2 ^ 61\<close>) the remainder is undefined and there is no decision. In a multizone run
  the result is AND-ed with the opt-in flag. Whenever the analysis is nonlinear, or the
  write frequency is positive and \<open>writeFrequency * 40\<close> is below \<open>2 ^ 64\<close>, this is the
  decision of the specification.
\<close>

theorem WriteScreen_Header_decision:
  fixes this :: CElasticityOutput and config :: CConfig
  defines "divisor \<equiv> (unat (GetWrt_Con_Freq config) * 40) mod 2 ^ 64"
  defines "zone \<equiv> (if GetMultizone_Problem config then GetWrt_ZoneConv config else True)"
  shows "WriteScreen_Header this config =
           (if nonlinear_analysis this then Some (unat (GetIntIter config) = 0 \<and> zone)
            else if divisor = 0 then None
            else Some (unat (GetExtIter config) mod divisor = 0 \<and> zone))
       \<and> (nonlinear_analysis this
            \<or> (0 < unat (GetWrt_Con_Freq config)
                \<and> unat (GetWrt_Con_Freq config) * 40 < 2 ^ 64) \<longrightarrow>
          WriteScreen_Header this config =
            Some (shouldEmitHeader (nonlinear_analysis this) (GetMultizone_Problem config)
                    (GetWrt_ZoneConv config) (unat (GetIntIter config))
                    (unat (GetExtIter config)) (unat (GetWrt_Con_Freq config))))"
proof -
  have product: "unat (GetWrt_Con_Freq config * 40) = divisor"
    by (simp add: divisor_def unat_word_ariths)
  have zero: "(GetWrt_Con_Freq config * 40 = 0) = (divisor = 0)"
    unfolding product [symmetric] by (simp only: unat_eq_0)
  have remainder: "(GetExtIter config mod (GetWrt_Con_Freq config * 40) = 0)
      = (unat (GetExtIter config) mod divisor = 0)"
    unfolding product [symmetric] by (simp only: unat_mod [symmetric] unat_eq_0)
  have inner: "(GetIntIter config = 0) = (unat (GetIntIter config) = 0)"
    by (simp add: unat_eq_0)
  have code: "WriteScreen_Header this config =
      (if nonlinear_analysis this then Some (unat (GetIntIter config) = 0 \<and> zone)
       else if divisor = 0 then None
       else Some (unat (GetExtIter config) mod divisor = 0 \<and> zone))"
    by (simp add: WriteScreen_Header_def Let_def zone_def zero remainder inner)
  have spec: "WriteScreen_Header this config =
      Some (shouldEmitHeader (nonlinear_analysis this) (GetMultizone_Problem config)
              (GetWrt_ZoneConv config) (unat (GetIntIter config))
              (unat (GetExtIter config)) (unat (GetWrt_Con_Freq config)))"
    if "nonlinear_analysis this
        \<or> (0 < unat (GetWrt_Con_Freq config) \<and> unat (GetWrt_Con_Freq config) * 40 < 2 ^ 64)"
  proof (cases "nonlinear_analysis this")
    case True
    then show ?thesis
      by (simp add: code shouldEmitHeader_def zone_def)
  next
    case False
    with that have small: "0 < unat (GetWrt_Con_Freq config)"
      "unat (GetWrt_Con_Freq config) * 40 < 2 ^ 64"
      by simp_all
    then have "divisor = unat (GetWrt_Con_Freq config) * 40"
      by (simp add: divisor_def)
    with small False show ?thesis
      by (simp add: code shouldEmitHeader_def zone_def)
  qed
  from code spec show ?thesis by blast
qed

theorem WriteScreen_Header_decision_witness:
  "0 < unat (GetWrt_Con_Freq (example_config SMALL_DEFORMATIONS STATIC False False))
   \<and> unat (GetWrt_Con_Freq (example_config SMALL_DEFORMATIONS STATIC False False)) * 40
       < 2 ^ 64
   \<and> WriteScreen_Header
       (CElasticityOutput_ctor (example_config SMALL_DEFORMATIONS STATIC False False)
          (example_geometry 2) 0 (example_base False))
       (example_config SMALL_DEFORMATIONS STATIC False False)
     = Some (shouldEmitHeader False False False 5 80 2)
   \<and> shouldEmitHeader False False False 5 80 2"
proof -
  have freq: "0 < unat (GetWrt_Con_Freq (example_config SMALL_DEFORMATIONS STATIC False False))"
    "unat (GetWrt_Con_Freq (example_config SMALL_DEFORMATIONS STATIC False False)) * 40
       < 2 ^ 64"
    by (simp_all add: example_config_def)
  have vals: "unat (GetIntIter (example_config SMALL_DEFORMATIONS STATIC False False)) = 5"
    "unat (GetExtIter (example_config SMALL_DEFORMATIONS STATIC False False)) = 80"
    "unat (GetWrt_Con_Freq (example_config SMALL_DEFORMATIONS STATIC False False)) = 2"
    "\<not> GetMultizone_Problem (example_config SMALL_DEFORMATIONS STATIC False False)"
    "\<not> GetWrt_ZoneConv (example_config SMALL_DEFORMATIONS STATIC False False)"
    "\<not> nonlinear_analysis
       (CElasticityOutput_ctor (example_config SMALL_DEFORMATIONS STATIC False False)
          (example_geometry 2) 0 (example_base False))"
    by (simp_all add: example_config_def ctor_nonlinear_analysis)
  have header: "shouldEmitHeader False False False 5 80 2"
    by (simp add: shouldEmitHeader_def)
  show ?thesis
    using freq vals header
      WriteScreen_Header_decision
        [of "CElasticityOutput_ctor (example_config SMALL_DEFORMATIONS STATIC False False)
               (example_geometry 2) 0 (example_base False)"
            "example_config SMALL_DEFORMATIONS STATIC False False"]
    by simp
qed

theorem WriteScreen_Header_counterexample:
  "nonlinear_analysis
     (CElasticityOutput_ctor (example_config_iter 0 0) (example_geometry 2) 0
        (example_base False)) = False
   \<and> WriteScreen_Header
       (CElasticityOutput_ctor (example_config_iter 0 0) (example_geometry 2) 0
          (example_base False))
       (example_config_iter 0 0) = None
   \<and> WriteScreen_Header
       (CElasticityOutput_ctor (example_config_iter 48 461168601842738791)
          (example_geometry 2) 0 (example_base False))
       (example_config_iter 48 461168601842738791) = Some True
   \<and> shouldEmitHeader False
       (GetMultizone_Problem (example_config_iter 48 461168601842738791))
       (GetWrt_ZoneConv (example_config_iter 48 461168601842738791))
       (unat (GetIntIter (example_config_iter 48 461168601842738791)))
       (unat (GetExtIter (example_config_iter 48 461168601842738791)))
       (unat (GetWrt_Con_Freq (example_config_iter 48 461168601842738791))) = False"
  by (simp add: WriteScreen_Header_def shouldEmitHeader_def Let_def ctor_nonlinear_analysis
      example_config_iter_def)

section \<open>The row decisions\<close>

text \<open>
  Claim C5, as the code has it. The screen-row decision \<open>WriteScreen_Output\<close> is true by
  default and, in a multizone run, equal to the opt-in flag. The history-file row decision
  \<open>WriteHistoryFile_Output\<close> is true for every configuration: it is not AND-ed with the
  opt-in flag, so a multizone run without the opt-in still emits the history-file row.
\<close>

theorem row_decisions:
  "WriteScreen_Output this config
     = (if GetMultizone_Problem config then GetWrt_ZoneConv config else True)
   \<and> WriteHistoryFile_Output this config = True"
  by (simp add: WriteScreen_Output_def WriteHistoryFile_Output_def Let_def)

theorem row_decisions_witness:
  "WriteScreen_Output
     (CElasticityOutput_ctor (example_config SMALL_DEFORMATIONS STATIC True False)
        (example_geometry 2) 0 (example_base True))
     (example_config SMALL_DEFORMATIONS STATIC True False) = False
   \<and> WriteScreen_Output
     (CElasticityOutput_ctor (example_config SMALL_DEFORMATIONS STATIC False False)
        (example_geometry 2) 0 (example_base False))
     (example_config SMALL_DEFORMATIONS STATIC False False) = True"
  using row_decisions
      [of "CElasticityOutput_ctor (example_config SMALL_DEFORMATIONS STATIC True False)
             (example_geometry 2) 0 (example_base True)"
          "example_config SMALL_DEFORMATIONS STATIC True False"]
    row_decisions
      [of "CElasticityOutput_ctor (example_config SMALL_DEFORMATIONS STATIC False False)
             (example_geometry 2) 0 (example_base False)"
          "example_config SMALL_DEFORMATIONS STATIC False False"]
  by (simp add: example_config_def)

theorem history_file_row_counterexample:
  "GetMultizone_Problem (example_config SMALL_DEFORMATIONS STATIC True False) = True
   \<and> GetWrt_ZoneConv (example_config SMALL_DEFORMATIONS STATIC True False) = False
   \<and> WriteHistoryFile_Output
       (CElasticityOutput_ctor (example_config SMALL_DEFORMATIONS STATIC True False)
          (example_geometry 2) 0 (example_base True))
       (example_config SMALL_DEFORMATIONS STATIC True False) = True"
  by (simp add: example_config_def WriteHistoryFile_Output_def)

section \<open>Registered fields and written fields\<close>

text \<open>
  Claim C6, as the code has it. For every configuration, every field registered in the
  history catalog that applies to the configuration is written exactly once by
  \<open>LoadHistoryData\<close>: the iteration counters \<open>TIME_ITER\<close>, \<open>INNER_ITER\<close>,
  \<open>OUTER_ITER\<close> and the summary fields \<open>VMS\<close>, \<open>LOAD_INCREMENT\<close>, \<open>LOAD_RAMP\<close>
  always; \<open>RMS_DISP_X\<close>, \<open>RMS_DISP_Y\<close> under a linear analysis; \<open>RMS_UTOL\<close>,
  \<open>RMS_RTOL\<close> under a nonlinear analysis; \<open>BGS_DISP_X\<close>, \<open>BGS_DISP_Y\<close> in a
  multizone run; and the third component of each of these families iff moreover the
  dimension is 3. A registered residual field that does not apply to the configuration is
  not written. No field is written twice, and every field written is registered. Nothing
  is stated about the registered fields \<open>PHYS_TIME\<close> and \<open>LINSOL_ITER\<close>.
\<close>

theorem LoadHistoryData_writes_applicable_fields_once:
  fixes config :: CConfig and geometry :: "'d CGeometry" and val_iZone :: "16 word"
    and base :: COutput and decimal_log :: "'d \<Rightarrow> 'd" and of_ulong :: "64 word \<Rightarrow> 'd"
    and fea_solver :: "'d CSolver"
  defines "obj \<equiv> CElasticityOutput_ctor config geometry val_iZone base"
  defines "HC \<equiv> history_catalog config geometry val_iZone base"
  defines "W \<equiv> history_written decimal_log of_ulong obj fea_solver"
  shows "(\<forall>f \<in> set HC. f \<noteq> ''PHYS_TIME'' \<and> f \<noteq> ''LINSOL_ITER'' \<longrightarrow>
            count_list W f = (if history_field_applies obj f then 1 else 0))
       \<and> (\<forall>f \<in> set W. f \<in> set HC \<and> count_list W f = 1)
       \<and> linear_analysis obj = (GetGeometricConditions config = SMALL_DEFORMATIONS)
       \<and> nonlinear_analysis obj = (GetGeometricConditions config = LARGE_DEFORMATIONS)
       \<and> nDim obj = GetnDim geometry
       \<and> multizone obj = multizone base"
proof -
  have catalog: "HC =
      [''TIME_ITER'', ''OUTER_ITER'', ''INNER_ITER'', ''PHYS_TIME'', ''LINSOL_ITER'',
       ''RMS_UTOL'', ''RMS_RTOL'', ''RMS_ETOL'',
       ''RMS_DISP_X'', ''RMS_DISP_Y'', ''RMS_DISP_Z'',
       ''BGS_DISP_X'', ''BGS_DISP_Y'', ''BGS_DISP_Z'',
       ''VMS'', ''LOAD_INCREMENT'', ''LOAD_RAMP'']"
    by (simp add: HC_def history_catalog_def SetHistoryOutputFields_names)
  have written: "W =
      [''TIME_ITER'', ''INNER_ITER'', ''OUTER_ITER'']
      @ (if linear_analysis obj
         then [''RMS_DISP_X'', ''RMS_DISP_Y''] @ (if nDim obj = 3 then [''RMS_DISP_Z''] else [])
         else if nonlinear_analysis obj
         then [''RMS_UTOL'', ''RMS_RTOL''] @ (if nDim obj = 3 then [''RMS_ETOL''] else [])
         else [])
      @ (if multizone obj
         then [''BGS_DISP_X'', ''BGS_DISP_Y''] @ (if nDim obj = 3 then [''BGS_DISP_Z''] else [])
         else [])
      @ [''VMS'', ''LOAD_INCREMENT'', ''LOAD_RAMP'']"
    unfolding W_def by (rule history_written_names)
  have applicable: "\<forall>f \<in> set HC. f \<noteq> ''PHYS_TIME'' \<and> f \<noteq> ''LINSOL_ITER'' \<longrightarrow>
      count_list W f = (if history_field_applies obj f then 1 else 0)"
    unfolding catalog written
    by (cases "linear_analysis obj"; cases "nonlinear_analysis obj";
        cases "nDim obj = 3"; cases "multizone obj")
       (simp_all add: history_field_applies_def residual_field_active_def)
  have once: "distinct W"
    unfolding written by auto
  have registered: "set W \<subseteq> set HC"
    unfolding catalog written by auto
  have only: "f \<in> set HC \<and> count_list W f = 1" if "f \<in> set W" for f
    using that once registered by (auto simp add: count_list_distinct)
  have flags: "linear_analysis obj = (GetGeometricConditions config = SMALL_DEFORMATIONS)
      \<and> nonlinear_analysis obj = (GetGeometricConditions config = LARGE_DEFORMATIONS)
      \<and> nDim obj = GetnDim geometry \<and> multizone obj = multizone base"
    by (simp add: obj_def ctor_flags)
  from applicable only flags show ?thesis by blast
qed

theorem LoadHistoryData_writes_applicable_fields_once_witness:
  "''RMS_DISP_X'' \<in> set (history_catalog (example_config SMALL_DEFORMATIONS STATIC False False)
         (example_geometry 2) 0 (example_base False))
   \<and> history_field_applies
        (CElasticityOutput_ctor (example_config SMALL_DEFORMATIONS STATIC False False)
           (example_geometry 2) 0 (example_base False)) ''RMS_DISP_X''
   \<and> count_list (history_written ext_log10 ext_of_ulong
        (CElasticityOutput_ctor (example_config SMALL_DEFORMATIONS STATIC False False)
           (example_geometry 2) 0 (example_base False)) example_solver) ''RMS_DISP_X'' = 1
   \<and> ''RMS_UTOL'' \<in> set (history_catalog (example_config SMALL_DEFORMATIONS STATIC False False)
         (example_geometry 2) 0 (example_base False))
   \<and> count_list (history_written ext_log10 ext_of_ulong
        (CElasticityOutput_ctor (example_config SMALL_DEFORMATIONS STATIC False False)
           (example_geometry 2) 0 (example_base False)) example_solver) ''RMS_UTOL'' = 0"
proof -
  have registered: "''RMS_DISP_X'' \<in> set (history_catalog
        (example_config SMALL_DEFORMATIONS STATIC False False)
        (example_geometry 2) 0 (example_base False))"
    "''RMS_UTOL'' \<in> set (history_catalog
        (example_config SMALL_DEFORMATIONS STATIC False False)
        (example_geometry 2) 0 (example_base False))"
    by (simp_all add: history_catalog_def SetHistoryOutputFields_names)
  have applies: "history_field_applies
        (CElasticityOutput_ctor (example_config SMALL_DEFORMATIONS STATIC False False)
           (example_geometry 2) 0 (example_base False)) ''RMS_DISP_X''"
    "\<not> history_field_applies
        (CElasticityOutput_ctor (example_config SMALL_DEFORMATIONS STATIC False False)
           (example_geometry 2) 0 (example_base False)) ''RMS_UTOL''"
    by (simp_all add: history_field_applies_def residual_field_active_def ctor_flags
        example_config_def)
  have names: "''RMS_DISP_X'' \<noteq> ''PHYS_TIME''" "''RMS_DISP_X'' \<noteq> ''LINSOL_ITER''"
    "''RMS_UTOL'' \<noteq> ''PHYS_TIME''" "''RMS_UTOL'' \<noteq> ''LINSOL_ITER''"
    by simp_all
  show ?thesis
    using registered applies names
      LoadHistoryData_writes_applicable_fields_once
        [where config = "example_config SMALL_DEFORMATIONS STATIC False False"
           and geometry = "example_geometry 2" and val_iZone = 0
           and base = "example_base False" and decimal_log = ext_log10
           and of_ulong = ext_of_ulong and fea_solver = example_solver]
    by (metis (full_types))
qed

theorem registered_field_not_written_counterexample:
  "''PHYS_TIME'' \<in> set (history_catalog (example_config SMALL_DEFORMATIONS STATIC False False)
         (example_geometry 2) 0 (example_base False))
   \<and> count_list (history_written ext_log10 ext_of_ulong
       (CElasticityOutput_ctor (example_config SMALL_DEFORMATIONS STATIC False False)
          (example_geometry 2) 0 (example_base False)) example_solver) ''PHYS_TIME'' = 0
   \<and> ''RMS_DISP_Z'' \<in> set (history_catalog (example_config SMALL_DEFORMATIONS STATIC False False)
         (example_geometry 2) 0 (example_base False))
   \<and> count_list (history_written ext_log10 ext_of_ulong
       (CElasticityOutput_ctor (example_config SMALL_DEFORMATIONS STATIC False False)
          (example_geometry 2) 0 (example_base False)) example_solver) ''RMS_DISP_Z'' = 0"
  by (simp add: history_catalog_def SetHistoryOutputFields_names history_written_names
      ctor_flags example_config_def example_geometry_def example_base_def)

section \<open>An unrecognised geometry mode\<close>

text \<open>
  Claim C7, as the code has it. The constructor reports nothing: it has no failing branch.
  For a configuration whose geometry mode is neither \<open>SMALL_DEFORMATIONS\<close> nor
  \<open>LARGE_DEFORMATIONS\<close> it completes with \<open>linear_analysis\<close> and \<open>nonlinear_analysis\<close>
  both false and \<open>nVar_FEM\<close> not assigned, and both catalogs are produced as for any
  other configuration: the history catalog is the same seventeen fields, the volume
  catalog is not empty.
\<close>

theorem unrecognised_geometry_mode_is_not_reported:
  fixes config :: CConfig and geometry :: "'d CGeometry" and val_iZone :: "16 word"
    and base :: COutput
  defines "obj \<equiv> CElasticityOutput_ctor config geometry val_iZone base"
  assumes "GetGeometricConditions config \<noteq> SMALL_DEFORMATIONS"
    and "GetGeometricConditions config \<noteq> LARGE_DEFORMATIONS"
  shows "\<not> linear_analysis obj \<and> \<not> nonlinear_analysis obj \<and> nVar_FEM obj = None
       \<and> history_catalog config geometry val_iZone base =
           [''TIME_ITER'', ''OUTER_ITER'', ''INNER_ITER'', ''PHYS_TIME'', ''LINSOL_ITER'',
            ''RMS_UTOL'', ''RMS_RTOL'', ''RMS_ETOL'',
            ''RMS_DISP_X'', ''RMS_DISP_Y'', ''RMS_DISP_Z'',
            ''BGS_DISP_X'', ''BGS_DISP_Y'', ''BGS_DISP_Z'',
            ''VMS'', ''LOAD_INCREMENT'', ''LOAD_RAMP'']
       \<and> volume_catalog config geometry val_iZone base \<noteq> []"
proof -
  have mode: "GetGeometricConditions config = UNRECOGNISED_DEFORMATIONS"
    using assms(2,3) by (cases "GetGeometricConditions config") simp_all
  have flags: "\<not> linear_analysis obj \<and> \<not> nonlinear_analysis obj \<and> nVar_FEM obj = None"
    by (simp add: obj_def ctor_linear_analysis ctor_nonlinear_analysis ctor_nVar_FEM mode)
  have history: "history_catalog config geometry val_iZone base =
      [''TIME_ITER'', ''OUTER_ITER'', ''INNER_ITER'', ''PHYS_TIME'', ''LINSOL_ITER'',
       ''RMS_UTOL'', ''RMS_RTOL'', ''RMS_ETOL'',
       ''RMS_DISP_X'', ''RMS_DISP_Y'', ''RMS_DISP_Z'',
       ''BGS_DISP_X'', ''BGS_DISP_Y'', ''BGS_DISP_Z'',
       ''VMS'', ''LOAD_INCREMENT'', ''LOAD_RAMP'']"
    by (simp add: history_catalog_def SetHistoryOutputFields_names)
  have volume: "volume_catalog config geometry val_iZone base \<noteq> []"
    by (simp add: volume_catalog_def SetVolumeOutputFields_def)
  from flags history volume show ?thesis by simp
qed

theorem unrecognised_geometry_mode_is_not_reported_witness:
  "GetGeometricConditions (example_config UNRECOGNISED_DEFORMATIONS STATIC False False)
     \<noteq> SMALL_DEFORMATIONS
   \<and> GetGeometricConditions (example_config UNRECOGNISED_DEFORMATIONS STATIC False False)
     \<noteq> LARGE_DEFORMATIONS
   \<and> nVar_FEM (CElasticityOutput_ctor
        (example_config UNRECOGNISED_DEFORMATIONS STATIC False False)
        (example_geometry 3) 0 (example_base False)) = None
   \<and> length (history_catalog (example_config UNRECOGNISED_DEFORMATIONS STATIC False False)
        (example_geometry 3) 0 (example_base False)) = 17"
proof -
  have m1: "GetGeometricConditions (example_config UNRECOGNISED_DEFORMATIONS STATIC False False)
      \<noteq> SMALL_DEFORMATIONS"
    by (simp add: example_config_def)
  have m2: "GetGeometricConditions (example_config UNRECOGNISED_DEFORMATIONS STATIC False False)
      \<noteq> LARGE_DEFORMATIONS"
    by (simp add: example_config_def)
  show ?thesis
    using m1 m2
      unrecognised_geometry_mode_is_not_reported
        [OF m1 m2, where geometry = "example_geometry 3" and val_iZone = 0
           and base = "example_base False"]
    by simp
qed

theorem unrecognised_geometry_mode_counterexample:
  "GetGeometricConditions (example_config UNRECOGNISED_DEFORMATIONS STATIC False False)
     \<noteq> SMALL_DEFORMATIONS
   \<and> GetGeometricConditions (example_config UNRECOGNISED_DEFORMATIONS STATIC False False)
     \<noteq> LARGE_DEFORMATIONS
   \<and> linear_analysis (CElasticityOutput_ctor
        (example_config UNRECOGNISED_DEFORMATIONS STATIC False False)
        (example_geometry 2) 0 (example_base False)) = False
   \<and> nonlinear_analysis (CElasticityOutput_ctor
        (example_config UNRECOGNISED_DEFORMATIONS STATIC False False)
        (example_geometry 2) 0 (example_base False)) = False
   \<and> length (SetHistoryOutputFields (CElasticityOutput_ctor
        (example_config UNRECOGNISED_DEFORMATIONS STATIC False False)
        (example_geometry 2) 0 (example_base False))) = 17
   \<and> length (SetVolumeOutputFields (CElasticityOutput_ctor
        (example_config UNRECOGNISED_DEFORMATIONS STATIC False False)
        (example_geometry 2) 0 (example_base False))) = 12"
  by (simp add: ctor_flags example_config_def example_geometry_def
      SetHistoryOutputFields_def SetVolumeOutputFields_def)

section \<open>Residual values\<close>

text \<open>
  Claim C8. For every residual history field (\<open>RMS_DISP_*\<close>, \<open>RMS_*TOL\<close>,
  \<open>BGS_DISP_*\<close>), whether \<open>LoadHistoryData\<close> writes it depends on the analysis flags
  only, never on the value of the residual; when it is written, it is written exactly
  once, with the base-10 logarithm of the corresponding upstream residual, whatever that
  value is. Nothing is tested or clamped, and the loader has no failing branch: when the
  logarithm of the upstream residual is not finite, as it is for a residual equal to
  zero, the write still takes place and the value written is not finite. In the value
  domain with the special values of IEEE arithmetic, a residual equal to zero is written
  as minus infinity.
\<close>

theorem residual_fields_store_decimal_logarithm:
  fixes decimal_log :: "'d \<Rightarrow> 'd" and of_ulong :: "64 word \<Rightarrow> 'd"
    and this :: CElasticityOutput and fea_solver :: "'d CSolver" and name :: string
    and isfinite :: "'d \<Rightarrow> bool" and ieee_solver :: "ext_double CSolver"
  defines "L \<equiv> LoadHistoryData decimal_log of_ulong this fea_solver"
  defines "L_ieee \<equiv> LoadHistoryData ext_log10 ext_of_ulong this ieee_solver"
  assumes residual: "name \<in> set residual_history_fields"
  shows "map snd (filter (\<lambda>p. fst p = name) L) =
           (if residual_field_active this name
            then [decimal_log (upstream_residual fea_solver name)] else [])
       \<and> (residual_field_active this name
            \<and> \<not> isfinite (decimal_log (upstream_residual fea_solver name)) \<longrightarrow>
          (\<exists>val. (name, val) \<in> set L \<and> val = decimal_log (upstream_residual fea_solver name)
             \<and> \<not> isfinite val))
       \<and> (residual_field_active this name
            \<and> upstream_residual ieee_solver name = Finite 0 \<longrightarrow>
          map snd (filter (\<lambda>p. fst p = name) L_ieee) = [MinusInf]
          \<and> (name, MinusInf) \<in> set L_ieee \<and> \<not> ext_isfinite MinusInf)"
proof -
  have writes: "map snd (filter (\<lambda>p. fst p = name) L) =
      (if residual_field_active this name
       then [decimal_log (upstream_residual fea_solver name)] else [])"
    unfolding L_def using residual by (rule LoadHistoryData_residual_writes)
  have stored: "(name, decimal_log (upstream_residual fea_solver name)) \<in> set L"
    if "residual_field_active this name"
    using that writes by (simp add: written_value_member)
  have ieee: "map snd (filter (\<lambda>p. fst p = name) L_ieee) = [MinusInf]
      \<and> (name, MinusInf) \<in> set L_ieee \<and> \<not> ext_isfinite MinusInf"
    if active: "residual_field_active this name"
      and zero: "upstream_residual ieee_solver name = Finite 0"
  proof -
    have "map snd (filter (\<lambda>p. fst p = name) L_ieee) =
        [ext_log10 (upstream_residual ieee_solver name)]"
      unfolding L_ieee_def using active
      by (simp add: LoadHistoryData_residual_writes [OF residual])
    then have one: "map snd (filter (\<lambda>p. fst p = name) L_ieee) = [MinusInf]"
      by (simp add: zero ext_log10_def)
    from one written_value_member [OF one] show ?thesis
      by (simp add: ext_isfinite_def)
  qed
  from writes stored ieee show ?thesis by blast
qed

theorem residual_fields_store_decimal_logarithm_witness:
  "''RMS_DISP_X'' \<in> set residual_history_fields
   \<and> residual_field_active
        (CElasticityOutput_ctor (example_config SMALL_DEFORMATIONS STATIC False False)
           (example_geometry 2) 0 (example_base False)) ''RMS_DISP_X''
   \<and> upstream_residual example_solver ''RMS_DISP_X'' = Finite 0
   \<and> ext_log10 (Finite 0) = MinusInf
   \<and> \<not> ext_isfinite MinusInf
   \<and> map snd (filter (\<lambda>p. fst p = ''RMS_DISP_X'')
        (LoadHistoryData ext_log10 ext_of_ulong
           (CElasticityOutput_ctor (example_config SMALL_DEFORMATIONS STATIC False False)
              (example_geometry 2) 0 (example_base False)) example_solver)) = [MinusInf]"
proof -
  have residual: "''RMS_DISP_X'' \<in> set residual_history_fields"
    by (simp add: residual_history_fields_def)
  have active: "residual_field_active
        (CElasticityOutput_ctor (example_config SMALL_DEFORMATIONS STATIC False False)
           (example_geometry 2) 0 (example_base False)) ''RMS_DISP_X''"
    by (simp add: residual_field_active_def ctor_flags example_config_def)
  have zero: "upstream_residual example_solver ''RMS_DISP_X'' = Finite 0"
    by (simp add: upstream_residual_def example_solver_def)
  have minus_inf: "ext_log10 (Finite 0) = MinusInf" "\<not> ext_isfinite MinusInf"
    by (simp_all add: ext_log10_def ext_isfinite_def)
  show ?thesis
    using residual active zero minus_inf
      residual_fields_store_decimal_logarithm
        [OF residual, where decimal_log = ext_log10 and of_ulong = ext_of_ulong
           and this = "CElasticityOutput_ctor
             (example_config SMALL_DEFORMATIONS STATIC False False)
             (example_geometry 2) 0 (example_base False)"
           and fea_solver = example_solver and isfinite = ext_isfinite
           and ieee_solver = example_solver]
    by simp
qed

section \<open>Which components the loaders write\<close>

text \<open>
  Claim C9. For every configuration and every point of the mesh, the loaders write the
  out-of-plane component of a quantity if and only if the dimension is 3, wherever the
  quantity itself is loaded, and they write velocity and acceleration only in a dynamic
  run. In full: \<open>LoadVolumeData\<close> returns, and it writes the Z coordinate, the Z
  displacement and the stresses ZZ, XZ, YZ iff the dimension is 3; it writes the X and Y
  velocity and acceleration iff the run is dynamic, and the Z velocity and Z acceleration
  iff the dimension is 3 and the run is dynamic. \<open>LoadHistoryData\<close> writes \<open>RMS_DISP_Z\<close>
  iff the dimension is 3 and the analysis is linear, \<open>RMS_ETOL\<close> iff the dimension is 3
  and the analysis is nonlinear, and \<open>BGS_DISP_Z\<close> iff the dimension is 3 and the run is
  multizone.
\<close>

theorem loaders_write_gated_components:
  fixes config :: CConfig and geometry :: "'d CGeometry" and val_iZone :: "16 word"
    and base :: COutput and decimal_log :: "'d \<Rightarrow> 'd" and of_ulong :: "64 word \<Rightarrow> 'd"
    and fea_solver :: "'d CSolver" and iPoint :: "64 word"
  defines "obj \<equiv> CElasticityOutput_ctor config geometry val_iZone base"
  defines "W \<equiv> history_written decimal_log of_ulong obj fea_solver"
  defines "dyn \<equiv> (GetTime_Domain config \<or> GetDynamic_Analysis config = DYNAMIC)"
  shows "(unat iPoint < length (solver_node fea_solver)
          \<and> unat iPoint < length (geometry_node geometry) \<longrightarrow>
          (\<exists>ws. volume_written obj geometry fea_solver iPoint = Some ws
            \<and> (''COORD-Z'' \<in> set ws \<longleftrightarrow> GetnDim geometry = 3)
            \<and> (''DISPLACEMENT-Z'' \<in> set ws \<longleftrightarrow> GetnDim geometry = 3)
            \<and> (''STRESS-ZZ'' \<in> set ws \<longleftrightarrow> GetnDim geometry = 3)
            \<and> (''STRESS-XZ'' \<in> set ws \<longleftrightarrow> GetnDim geometry = 3)
            \<and> (''STRESS-YZ'' \<in> set ws \<longleftrightarrow> GetnDim geometry = 3)
            \<and> (''VELOCITY-X'' \<in> set ws \<longleftrightarrow> dyn)
            \<and> (''VELOCITY-Y'' \<in> set ws \<longleftrightarrow> dyn)
            \<and> (''ACCELERATION-X'' \<in> set ws \<longleftrightarrow> dyn)
            \<and> (''ACCELERATION-Y'' \<in> set ws \<longleftrightarrow> dyn)
            \<and> (''VELOCITY-Z'' \<in> set ws \<longleftrightarrow> GetnDim geometry = 3 \<and> dyn)
            \<and> (''ACCELERATION-Z'' \<in> set ws \<longleftrightarrow> GetnDim geometry = 3 \<and> dyn)))
       \<and> (''RMS_DISP_Z'' \<in> set W \<longleftrightarrow>
            GetnDim geometry = 3 \<and> GetGeometricConditions config = SMALL_DEFORMATIONS)
       \<and> (''RMS_ETOL'' \<in> set W \<longleftrightarrow>
            GetnDim geometry = 3 \<and> GetGeometricConditions config = LARGE_DEFORMATIONS)
       \<and> (''BGS_DISP_Z'' \<in> set W \<longleftrightarrow> GetnDim geometry = 3 \<and> multizone base)
       \<and> (''RMS_DISP_X'' \<in> set W \<longleftrightarrow> GetGeometricConditions config = SMALL_DEFORMATIONS)
       \<and> (''RMS_UTOL'' \<in> set W \<longleftrightarrow> GetGeometricConditions config = LARGE_DEFORMATIONS)
       \<and> (''BGS_DISP_X'' \<in> set W \<longleftrightarrow> multizone base)"
proof -
  have flags: "nDim obj = GetnDim geometry" "dynamic obj = dyn"
    "linear_analysis obj = (GetGeometricConditions config = SMALL_DEFORMATIONS)"
    "nonlinear_analysis obj = (GetGeometricConditions config = LARGE_DEFORMATIONS)"
    "multizone obj = multizone base"
    by (simp_all add: obj_def dyn_def ctor_flags)
  have volume: "\<exists>ws. volume_written obj geometry fea_solver iPoint = Some ws
      \<and> (''COORD-Z'' \<in> set ws \<longleftrightarrow> GetnDim geometry = 3)
      \<and> (''DISPLACEMENT-Z'' \<in> set ws \<longleftrightarrow> GetnDim geometry = 3)
      \<and> (''STRESS-ZZ'' \<in> set ws \<longleftrightarrow> GetnDim geometry = 3)
      \<and> (''STRESS-XZ'' \<in> set ws \<longleftrightarrow> GetnDim geometry = 3)
      \<and> (''STRESS-YZ'' \<in> set ws \<longleftrightarrow> GetnDim geometry = 3)
      \<and> (''VELOCITY-X'' \<in> set ws \<longleftrightarrow> dyn)
      \<and> (''VELOCITY-Y'' \<in> set ws \<longleftrightarrow> dyn)
      \<and> (''ACCELERATION-X'' \<in> set ws \<longleftrightarrow> dyn)
      \<and> (''ACCELERATION-Y'' \<in> set ws \<longleftrightarrow> dyn)
      \<and> (''VELOCITY-Z'' \<in> set ws \<longleftrightarrow> GetnDim geometry = 3 \<and> dyn)
      \<and> (''ACCELERATION-Z'' \<in> set ws \<longleftrightarrow> GetnDim geometry = 3 \<and> dyn)"
    if in_range: "unat iPoint < length (solver_node fea_solver)"
      "unat iPoint < length (geometry_node geometry)"
    by (auto simp add: volume_written_names [OF in_range] flags)
  have history: "(''RMS_DISP_Z'' \<in> set W \<longleftrightarrow>
        GetnDim geometry = 3 \<and> GetGeometricConditions config = SMALL_DEFORMATIONS)
      \<and> (''RMS_ETOL'' \<in> set W \<longleftrightarrow>
        GetnDim geometry = 3 \<and> GetGeometricConditions config = LARGE_DEFORMATIONS)
      \<and> (''BGS_DISP_Z'' \<in> set W \<longleftrightarrow> GetnDim geometry = 3 \<and> multizone base)
      \<and> (''RMS_DISP_X'' \<in> set W \<longleftrightarrow> GetGeometricConditions config = SMALL_DEFORMATIONS)
      \<and> (''RMS_UTOL'' \<in> set W \<longleftrightarrow> GetGeometricConditions config = LARGE_DEFORMATIONS)
      \<and> (''BGS_DISP_X'' \<in> set W \<longleftrightarrow> multizone base)"
    by (auto simp add: W_def history_written_names flags)
  from volume history show ?thesis by blast
qed

theorem loaders_write_gated_components_witness:
  "unat (0 :: 64 word) < length (solver_node example_solver)
   \<and> unat (0 :: 64 word) < length (geometry_node (example_geometry 3))
   \<and> volume_written (CElasticityOutput_ctor
        (example_config SMALL_DEFORMATIONS DYNAMIC False False)
        (example_geometry 3) 0 (example_base False))
        (example_geometry 3) example_solver 0 \<noteq> None
   \<and> ''RMS_DISP_Z'' \<in> set (history_written ext_log10 ext_of_ulong
        (CElasticityOutput_ctor (example_config SMALL_DEFORMATIONS DYNAMIC False False)
           (example_geometry 3) 0 (example_base False)) example_solver)
   \<and> ''BGS_DISP_Z'' \<notin> set (history_written ext_log10 ext_of_ulong
        (CElasticityOutput_ctor (example_config SMALL_DEFORMATIONS DYNAMIC False False)
           (example_geometry 3) 0 (example_base False)) example_solver)"
proof -
  have r1: "unat (0 :: 64 word) < length (solver_node example_solver)"
    by (simp add: example_solver_def)
  have r2: "unat (0 :: 64 word) < length (geometry_node (example_geometry 3))"
    by (simp add: example_geometry_def)
  have facts: "GetnDim (example_geometry 3) = 3"
    "GetGeometricConditions (example_config SMALL_DEFORMATIONS DYNAMIC False False)
       = SMALL_DEFORMATIONS"
    "\<not> multizone (example_base False)"
    by (simp_all add: example_geometry_def example_config_def example_base_def)
  show ?thesis
    using r1 r2 facts
      loaders_write_gated_components
        [where config = "example_config SMALL_DEFORMATIONS DYNAMIC False False"
           and geometry = "example_geometry 3" and val_iZone = 0
           and base = "example_base False" and decimal_log = ext_log10
           and of_ulong = ext_of_ulong and fea_solver = example_solver and iPoint = 0]
    by auto
qed

section \<open>The default convergence field\<close>

text \<open>
  Claim C10. When no convergence field is configured, the constructor sets the
  convergence field to \<open>RMS_DISP_X\<close> for every configuration, and in a nonlinear run
  (\<open>LARGE_DEFORMATIONS\<close>) \<open>LoadHistoryData\<close> never writes \<open>RMS_DISP_X\<close>.
\<close>

theorem default_convergence_field:
  fixes config :: CConfig and geometry :: "'d CGeometry" and val_iZone :: "16 word"
    and base :: COutput and decimal_log :: "'d \<Rightarrow> 'd" and of_ulong :: "64 word \<Rightarrow> 'd"
    and fea_solver :: "'d CSolver"
  assumes "Conv_Field base = []"
  shows "Conv_Field (CElasticityOutput_ctor config geometry val_iZone base) = ''RMS_DISP_X''
       \<and> (GetGeometricConditions config = LARGE_DEFORMATIONS \<longrightarrow>
            ''RMS_DISP_X'' \<notin> set (history_written decimal_log of_ulong
               (CElasticityOutput_ctor config geometry val_iZone base) fea_solver))"
proof -
  have "Conv_Field (CElasticityOutput_ctor config geometry val_iZone base) = ''RMS_DISP_X''"
    using assms by (rule ctor_Conv_Field_default)
  moreover have "''RMS_DISP_X'' \<notin> set (history_written decimal_log of_ulong
      (CElasticityOutput_ctor config geometry val_iZone base) fea_solver)"
    if "GetGeometricConditions config = LARGE_DEFORMATIONS"
    using that by (simp add: history_written_names ctor_flags)
  ultimately show ?thesis by blast
qed

theorem default_convergence_field_witness:
  "Conv_Field (example_base False) = []
   \<and> GetGeometricConditions (example_config LARGE_DEFORMATIONS STATIC False False)
       = LARGE_DEFORMATIONS
   \<and> Conv_Field (CElasticityOutput_ctor (example_config LARGE_DEFORMATIONS STATIC False False)
        (example_geometry 3) 0 (example_base False)) = ''RMS_DISP_X''
   \<and> ''RMS_DISP_X'' \<notin> set (history_written ext_log10 ext_of_ulong
        (CElasticityOutput_ctor (example_config LARGE_DEFORMATIONS STATIC False False)
           (example_geometry 3) 0 (example_base False)) example_solver)"
proof -
  have unset: "Conv_Field (example_base False) = []"
    by (simp add: example_base_def)
  have mode: "GetGeometricConditions (example_config LARGE_DEFORMATIONS STATIC False False)
      = LARGE_DEFORMATIONS"
    by (simp add: example_config_def)
  show ?thesis
    using unset mode
      default_convergence_field
        [OF unset, where config = "example_config LARGE_DEFORMATIONS STATIC False False"
           and geometry = "example_geometry 3" and val_iZone = 0
           and decimal_log = ext_log10 and of_ulong = ext_of_ulong
           and fea_solver = example_solver]
    by blast
qed

end
